theory Spec2Isabelle
  imports Main "HOL-Library.Char_ord" "HOL-Library.List_Lexorder" "HOL-Library.AList"
begin

section \<open>Text primitives\<close>

text \<open>
  Python's \<^verbatim>\<open>str\<close> is a sequence of code points. The model takes text over the
  code points below 256, one \<^typ>\<open>char\<close> each, so that \<^const>\<open>length\<close>, slicing and
  comparison count what Python counts. On these code points the classes below are those of
  CPython: \<^verbatim>\<open>\s\<close> and \<^verbatim>\<open>str.strip()\<close> use the same table of white space,
  \<^verbatim>\<open>str.splitlines()\<close> its table of line boundaries, and \<^verbatim>\<open>str.lower()\<close> maps the
  ASCII capitals and the capitals of the upper half (all but the multiplication sign).
\<close>

definition is_space :: "char \<Rightarrow> bool" where
  "is_space c = (of_char c \<in> set [9, 10, 11, 12, 13, 28, 29, 30, 31, 32, 133, 160 :: nat])"

definition is_linebreak :: "char \<Rightarrow> bool" where
  "is_linebreak c = (of_char c \<in> set [10, 11, 12, 13, 28, 29, 30, 133 :: nat])"

definition lower :: "char \<Rightarrow> char" where
  "lower c =
     (let n = (of_char c :: nat) in
      if (65 \<le> n \<and> n \<le> 90) \<or> (192 \<le> n \<and> n \<le> 222 \<and> n \<noteq> 215)
      then char_of (n + 32) else c)"

definition is_digit :: "char \<Rightarrow> bool" where
  "is_digit c = (CHR ''0'' \<le> c \<and> c \<le> CHR ''9'')"

definition is_alpha :: "char \<Rightarrow> bool" where
  "is_alpha c = (CHR ''a'' \<le> lower c \<and> lower c \<le> CHR ''z'')"

definition strip :: "string \<Rightarrow> string" where
  "strip s = rev (dropWhile is_space (rev (dropWhile is_space s)))"

text \<open>\<^verbatim>\<open>re.sub(r"\s+", " ", s)\<close>: every maximal run of white space becomes one blank.\<close>

function sub_ws :: "string \<Rightarrow> string" where
  "sub_ws [] = []"
| "sub_ws (c # cs) =
     (if is_space c then CHR '' '' # sub_ws (dropWhile is_space cs) else c # sub_ws cs)"
  by pat_completeness auto
termination
  by (relation "measure length") (auto simp: le_imp_less_Suc length_dropWhile_le)

definition normalize_space :: "string \<Rightarrow> string" where
  "normalize_space s = strip (sub_ws s)"

text \<open>
  \<^verbatim>\<open>str.splitlines()\<close>: a line ends at a line boundary, carriage return followed by
  line feed counts as one boundary, and text after the last boundary is a line only when it
  is not empty. The first argument is the line read so far, reversed.
\<close>

fun splitlines_from :: "string \<Rightarrow> string \<Rightarrow> string list" where
  "splitlines_from cur [] = (if cur = [] then [] else [rev cur])"
| "splitlines_from cur [c] =
     (if is_linebreak c then [rev cur] else [rev (c # cur)])"
| "splitlines_from cur (c # d # cs) =
     (if c = CHR 0x0D \<and> d = CHR 0x0A then rev cur # splitlines_from [] cs
      else if is_linebreak c then rev cur # splitlines_from [] (d # cs)
      else splitlines_from (c # cur) (d # cs))"

definition splitlines :: "string \<Rightarrow> string list" where
  "splitlines s = splitlines_from [] s"

fun startswith :: "string \<Rightarrow> string \<Rightarrow> bool" where
  "startswith s [] = True"
| "startswith [] (p # ps) = False"
| "startswith (c # cs) (p # ps) = (c = p \<and> startswith cs ps)"

definition endswith :: "string \<Rightarrow> string \<Rightarrow> bool" where
  "endswith s p = startswith (rev s) (rev p)"

text \<open>\<^verbatim>\<open>sub in s\<close> on strings.\<close>

fun contains :: "string \<Rightarrow> string \<Rightarrow> bool" where
  "contains [] sub = (sub = [])"
| "contains (c # cs) sub = (startswith (c # cs) sub \<or> contains cs sub)"

text \<open>The loop that removes duplicates and keeps the order of first occurrence.\<close>

fun uniq_from :: "'a list \<Rightarrow> 'a list \<Rightarrow> 'a list" where
  "uniq_from seen [] = []"
| "uniq_from seen (u # us) =
     (if u \<in> set seen then uniq_from seen us else u # uniq_from (u # seen) us)"

section \<open>Regular expressions\<close>

text \<open>
  The patterns of the scraper, as syntax trees, and a backtracking matcher in the order of
  Python's \<^verbatim>\<open>re\<close>: the alternatives of \<open>Alt\<close> left to right, \<open>Star\<close> greedy. A match
  state is the position in the line, the text still to read and the groups captured so far
  (latest first); \<open>rx_match\<close> lists the states after a match in the order in which
  backtracking would reach them, so that the head of the list is the match \<^verbatim>\<open>re\<close>
  reports.
\<close>

datatype rx =
    Chr "char \<Rightarrow> bool"
  | Bol
  | Eps
  | Seq rx rx
  | Alt rx rx
  | Star rx
  | Grp nat rx

type_synonym groups = "(nat \<times> string) list"
type_synonym mstate = "nat \<times> string \<times> groups"

function (sequential) rx_match :: "rx \<Rightarrow> mstate \<Rightarrow> mstate list" where
  "rx_match (Chr P) (i, s, g) =
     (case s of [] \<Rightarrow> [] | c # cs \<Rightarrow> if P c then [(Suc i, cs, g)] else [])"
| "rx_match Bol (i, s, g) = (if i = 0 then [(i, s, g)] else [])"
| "rx_match Eps st = [st]"
| "rx_match (Seq a b) st = concat (map (rx_match b) (rx_match a st))"
| "rx_match (Alt a b) st = rx_match a st @ rx_match b st"
| "rx_match (Star a) (i, s, g) =
     concat (map (\<lambda>st'. if length (fst (snd st')) < length s
                          then rx_match (Star a) st' else [])
                 (rx_match a (i, s, g))) @ [(i, s, g)]"
| "rx_match (Grp n a) (i, s, g) =
     map (\<lambda>st'. (fst st', fst (snd st'), (n, take (fst st' - i) s) # snd (snd st')))
         (rx_match a (i, s, g))"
  by pat_completeness auto
termination
  by (relation "measure size <*lex*> measure (\<lambda>st. length (fst (snd st)))") auto

text \<open>\<^verbatim>\<open>pattern.search(s)\<close>: the first position with a match, from the left.\<close>

fun rx_search_from :: "rx \<Rightarrow> nat \<Rightarrow> string \<Rightarrow> groups option" where
  "rx_search_from r i [] =
     (case rx_match r (i, [], []) of [] \<Rightarrow> None | m # _ \<Rightarrow> Some (snd (snd m)))"
| "rx_search_from r i (c # cs) =
     (case rx_match r (i, c # cs, []) of
        [] \<Rightarrow> rx_search_from r (Suc i) cs
      | m # _ \<Rightarrow> Some (snd (snd m)))"

definition search :: "rx \<Rightarrow> string \<Rightarrow> groups option" where
  "search r s = rx_search_from r 0 s"

text \<open>\<^verbatim>\<open>re.match(pattern, s)\<close>: a match at the start only.\<close>

definition match_start :: "rx \<Rightarrow> string \<Rightarrow> groups option" where
  "match_start r s =
     (case rx_match r (0, s, []) of [] \<Rightarrow> None | m # _ \<Rightarrow> Some (snd (snd m)))"

text \<open>
  \<^verbatim>\<open>pattern.findall(s)\<close>: the matches from left to right, each search starting where
  the match before ended (one character further after an empty match).
\<close>

function rx_findall_from :: "rx \<Rightarrow> nat \<Rightarrow> string \<Rightarrow> groups list" where
  "rx_findall_from r i s =
     (case rx_match r (i, s, []) of
        [] \<Rightarrow> (case s of [] \<Rightarrow> [] | c # cs \<Rightarrow> rx_findall_from r (Suc i) cs)
      | m # _ \<Rightarrow>
          snd (snd m) #
          (if length (fst (snd m)) < length s
           then rx_findall_from r (fst m) (fst (snd m))
           else (case s of [] \<Rightarrow> [] | c # cs \<Rightarrow> rx_findall_from r (Suc i) cs)))"
  by pat_completeness auto
termination
  by (relation "measure (\<lambda>(r, i, s). length s)") auto

definition findall :: "rx \<Rightarrow> string \<Rightarrow> groups list" where
  "findall r s = rx_findall_from r 0 s"

text \<open>
  \<^verbatim>\<open>m.group(n)\<close>. Python gives \<^verbatim>\<open>None\<close> for a group that took no part in the
  match; every group the scrapers read takes part in every match of its pattern
  (\<open>groups_take_part\<close> below), so that case does not arise.
\<close>

definition group :: "groups \<Rightarrow> nat \<Rightarrow> string" where
  "group g n = (case map_of g n of Some t \<Rightarrow> t | None \<Rightarrow> [])"

text \<open>The groups that every match of a pattern captures.\<close>

fun binds :: "rx \<Rightarrow> nat set" where
  "binds (Chr P) = {}"
| "binds Bol = {}"
| "binds Eps = {}"
| "binds (Seq a b) = binds a \<union> binds b"
| "binds (Alt a b) = binds a \<inter> binds b"
| "binds (Star a) = {}"
| "binds (Grp n a) = insert n (binds a)"

text \<open>A literal under \<^verbatim>\<open>(?i)\<close>, and the derived operators.\<close>

definition lit :: "string \<Rightarrow> rx" where
  "lit s = foldr (\<lambda>c r. Seq (Chr (\<lambda>x. lower x = lower c)) r) s Eps"

definition lit_cs :: "string \<Rightarrow> rx" where
  "lit_cs s = foldr (\<lambda>c r. Seq (Chr (\<lambda>x. x = c)) r) s Eps"

definition Plus :: "rx \<Rightarrow> rx" where
  "Plus a = Seq a (Star a)"

definition Opt :: "rx \<Rightarrow> rx" where
  "Opt a = Alt a Eps"

definition ws :: rx where
  "ws = Chr is_space"

definition digit :: rx where
  "digit = Chr is_digit"

definition one_of :: "string \<Rightarrow> rx" where
  "one_of cs = Chr (\<lambda>c. c \<in> set cs)"

text \<open>
  The four patterns of \<^verbatim>\<open>parse_pdf_for_outages\<close>, all compiled with \<^verbatim>\<open>(?i)\<close>:
  \<^verbatim>\<open>date\s*:\s*([A-Za-z]+\s*\d{1,2}[./-]\d{1,2}[./-]\d{4})\<close>,
  \<^verbatim>\<open>time\s*:\s*([0-9.:\sAPMapm-]+)\<close> (the class also holds the en dash,
  code point 8211, which is beyond the modelled code points),
  \<^verbatim>\<open>^area\s*:\s*(.+)\<close> and
  \<^verbatim>\<open>(region\s*:\s*|^)([A-Z\s]+REGION|PARTS OF [A-Z\s]+ COUNTY)\<close>.
\<close>

definition date_re :: rx where
  "date_re =
     Seq (lit ''date'') (Seq (Star ws) (Seq (lit '':'') (Seq (Star ws)
       (Grp 1 (Seq (Plus (Chr is_alpha)) (Seq (Star ws)
          (Seq digit (Seq (Opt digit) (Seq (one_of ''./-'')
          (Seq digit (Seq (Opt digit) (Seq (one_of ''./-'')
          (Seq digit (Seq digit (Seq digit digit)))))))))))))))"

definition time_re :: rx where
  "time_re =
     Seq (lit ''time'') (Seq (Star ws) (Seq (lit '':'') (Seq (Star ws)
       (Grp 1 (Plus (Chr (\<lambda>c. is_digit c \<or> c \<in> set ''.:-'' \<or> is_space c
                                \<or> lower c \<in> set ''apm'')))))))"

definition area_re :: rx where
  "area_re =
     Seq Bol (Seq (lit ''area'') (Seq (Star ws) (Seq (lit '':'') (Seq (Star ws)
       (Grp 1 (Plus (Chr (\<lambda>c. c \<noteq> CHR 0x0A))))))))"

definition region_re :: rx where
  "region_re =
     Seq (Grp 1 (Alt (Seq (lit ''region'') (Seq (Star ws) (Seq (lit '':'') (Star ws)))) Bol))
         (Grp 2 (Alt (Seq (Plus (Chr (\<lambda>c. is_alpha c \<or> is_space c))) (lit ''REGION''))
                     (Seq (lit ''PARTS OF '')
                        (Seq (Plus (Chr (\<lambda>c. is_alpha c \<or> is_space c)))
                             (lit '' COUNTY'')))))"

text \<open>\<^verbatim>\<open>(?i)(power\s+maintenance\s+notice[^<\n\r]*)\<close> of \<^verbatim>\<open>parse_with_regex\<close>.\<close>

definition notice_re :: rx where
  "notice_re =
     Grp 1 (Seq (lit ''power'') (Seq (Plus ws) (Seq (lit ''maintenance'') (Seq (Plus ws)
       (Seq (lit ''notice'')
            (Star (Chr (\<lambda>c. c \<noteq> CHR ''<'' \<and> c \<noteq> CHR 0x0A \<and> c \<noteq> CHR 0x0D))))))))"

text \<open>\<^verbatim>\<open>^(https?://[^/]+)\<close> of \<^verbatim>\<open>extract_pdf_links_bs4\<close> (case sensitive).\<close>

definition host_re :: rx where
  "host_re =
     Seq Bol (Grp 1 (Seq (lit_cs ''http'') (Seq (Opt (lit_cs ''s'')) (Seq (lit_cs ''://'')
       (Plus (Chr (\<lambda>c. c \<noteq> CHR ''/'')))))))"

section \<open>Data model\<close>

text \<open>The dictionaries the scraper builds all have the same seven keys.\<close>

record OutageNotice =
  notice_id :: string
  region :: string
  area :: string
  startTime :: string
  endTime :: string
  sourceUrl :: string
  createdAt :: string

text \<open>
  A naive \<^verbatim>\<open>datetime\<close> and its \<^verbatim>\<open>isoformat()\<close>. The type keeps the year within
  1 to 9999 and the other fields within their calendar ranges, so that the zero padded fields
  have exactly the widths written here.
\<close>

record datetime =
  year :: nat
  month :: nat
  day :: nat
  hour :: nat
  minute :: nat
  second :: nat
  microsecond :: nat

definition digit_char :: "nat \<Rightarrow> char" where
  "digit_char n = char_of (48 + n mod 10)"

definition pad2 :: "nat \<Rightarrow> string" where
  "pad2 n = [digit_char (n div 10), digit_char n]"

definition pad4 :: "nat \<Rightarrow> string" where
  "pad4 n = [digit_char (n div 1000), digit_char (n div 100), digit_char (n div 10), digit_char n]"

definition pad6 :: "nat \<Rightarrow> string" where
  "pad6 n = [digit_char (n div 100000), digit_char (n div 10000)] @ pad4 n"

definition isoformat :: "datetime \<Rightarrow> string" where
  "isoformat d =
     pad4 (year d) @ ''-'' @ pad2 (month d) @ ''-'' @ pad2 (day d) @ ''T'' @
     pad2 (hour d) @ '':'' @ pad2 (minute d) @ '':'' @ pad2 (second d) @
     (if microsecond d = 0 then [] else ''.'' @ pad6 (microsecond d))"

text \<open>\<^verbatim>\<open>dt.datetime.utcnow().replace(microsecond=0).isoformat() + "Z"\<close>\<close>

definition now_iso_of :: "datetime \<Rightarrow> string" where
  "now_iso_of now = isoformat (now\<lparr>microsecond := 0\<rparr>) @ ''Z''"

text \<open>
  \<^verbatim>\<open>hash_id\<close>: the first 16 characters of the hexadecimal SHA-1 digest. The digest
  function of \<^verbatim>\<open>hashlib\<close> is a parameter.
\<close>

definition hash_id :: "(string \<Rightarrow> string) \<Rightarrow> string \<Rightarrow> string" where
  "hash_id sha1_hexdigest t = take 16 (sha1_hexdigest t)"

section \<open>The record extractor\<close>

text \<open>
  The local variables of \<^verbatim>\<open>parse_pdf_for_outages\<close> that the loop and the nested
  \<^verbatim>\<open>flush\<close> update: the four fields of the record in progress and the list of
  records emitted so far.
\<close>

record scan_state =
  st_region :: string
  st_area :: string
  st_start :: string
  st_end :: string
  outages :: "OutageNotice list"

definition flush ::
  "(string \<Rightarrow> string) \<Rightarrow> string \<Rightarrow> string \<Rightarrow> scan_state \<Rightarrow> scan_state" where
  "flush sha1_hexdigest now_iso pdf_url st =
     (if st_area st \<noteq> [] \<or> st_start st \<noteq> [] \<or> st_end st \<noteq> [] \<or> st_region st \<noteq> []
      then st\<lparr>outages := outages st @
                 [\<lparr>notice_id = hash_id sha1_hexdigest
                      (pdf_url @ ''|'' @ st_region st @ ''|'' @ st_area st @ ''|'' @
                       st_start st @ ''|'' @ st_end st),
                   region = st_region st,
                   area = st_area st,
                   startTime = st_start st,
                   endTime = st_end st,
                   sourceUrl = pdf_url,
                   createdAt = now_iso\<rparr>],
              st_region := [], st_area := [], st_start := [], st_end := []\<rparr>
      else st)"

text \<open>The body of the loop over the lines.\<close>

definition scan_line ::
  "(string \<Rightarrow> string) \<Rightarrow> string \<Rightarrow> string \<Rightarrow> string \<Rightarrow> scan_state \<Rightarrow> scan_state" where
  "scan_line sha1_hexdigest now_iso pdf_url ln st =
     (if ln = [] then st
      else case search region_re ln of
        Some m \<Rightarrow> (flush sha1_hexdigest now_iso pdf_url st)\<lparr>st_region := strip (group m 2)\<rparr>
      | None \<Rightarrow>
     (case search area_re ln of
        Some m \<Rightarrow> st\<lparr>st_area := strip (group m 1)\<rparr>
      | None \<Rightarrow>
     (case search date_re ln of
        Some m \<Rightarrow> st\<lparr>st_start := strip (group m 1)\<rparr>
      | None \<Rightarrow>
     (case search time_re ln of
        Some m \<Rightarrow> st\<lparr>st_end := strip (group m 1)\<rparr>
      | None \<Rightarrow> st))))"

fun scan_lines ::
  "(string \<Rightarrow> string) \<Rightarrow> string \<Rightarrow> string \<Rightarrow> string list \<Rightarrow> scan_state \<Rightarrow> scan_state" where
  "scan_lines sha1_hexdigest now_iso pdf_url [] st = st"
| "scan_lines sha1_hexdigest now_iso pdf_url (ln # lns) st =
     scan_lines sha1_hexdigest now_iso pdf_url lns
       (scan_line sha1_hexdigest now_iso pdf_url ln st)"

definition init_state :: scan_state where
  "init_state = \<lparr>st_region = [], st_area = [], st_start = [], st_end = [], outages = []\<rparr>"

text \<open>The records of the structured scan: the loop, then the last \<^verbatim>\<open>flush()\<close>.\<close>

definition structured_scan ::
  "(string \<Rightarrow> string) \<Rightarrow> string \<Rightarrow> string \<Rightarrow> string list \<Rightarrow> OutageNotice list" where
  "structured_scan sha1_hexdigest now_iso pdf_url lines =
     outages (flush sha1_hexdigest now_iso pdf_url
                (scan_lines sha1_hexdigest now_iso pdf_url lines init_state))"

definition parse_pdf_for_outages ::
  "(string \<Rightarrow> string) \<Rightarrow> datetime \<Rightarrow> string \<Rightarrow> string \<Rightarrow> OutageNotice list" where
  "parse_pdf_for_outages sha1_hexdigest now text pdf_url =
     (let lines = map normalize_space (splitlines text);
          now_iso = now_iso_of now;
          found = structured_scan sha1_hexdigest now_iso pdf_url lines
      in if found = [] \<and> lines \<noteq> []
         then [\<lparr>notice_id = hash_id sha1_hexdigest pdf_url,
                 region = take 120 (hd lines),
                 area = ''Planned maintenance'',
                 startTime = [],
                 endTime = [],
                 sourceUrl = pdf_url,
                 createdAt = now_iso\<rparr>]
         else found)"

section \<open>The environment of the fetcher\<close>

text \<open>
  What the script gets from outside: the process environment, the clock, and the libraries
  (\<^verbatim>\<open>hashlib\<close>, \<^verbatim>\<open>argparse\<close>, \<^verbatim>\<open>urllib\<close>, \<^verbatim>\<open>bs4\<close>, \<^verbatim>\<open>pdfminer\<close>,
  \<^verbatim>\<open>PyPDF2\<close>, the file system). A call to the network, to the parser of \<^verbatim>\<open>bs4\<close>,
  to a PDF library or to the file system returns its result or raises, whether the source
  has a handler around it or not, and \<^verbatim>\<open>parse_args\<close> may leave through
  \<^verbatim>\<open>SystemExit\<close> with a status. The digest and the clock always return.
\<close>

datatype exn = Exception string

fun str_exn :: "exn \<Rightarrow> string" where
  "str_exn (Exception msg) = msg"

record fetch_args =
  arg_output :: string
  arg_mirror :: "string option"
  arg_source :: string

record env =
  environ_source_url :: "string option"
  sha1_hexdigest :: "string \<Rightarrow> string"
  utcnow :: "nat \<Rightarrow> datetime"
  parse_args :: "string list \<Rightarrow> int + fetch_args"
  http_get :: "string \<Rightarrow> exn + string"
  bs4_installed :: bool
  soup_hrefs :: "string \<Rightarrow> exn + string list"
  soup_texts :: "string \<Rightarrow> exn + string list"
  urlopen_read :: "string \<Rightarrow> exn + string"
  pdfminer_extract_text :: "string \<Rightarrow> exn + string"
  pypdf2_page_texts :: "string \<Rightarrow> exn + string list"
  write_text :: "string \<Rightarrow> string \<Rightarrow> exn + unit"

text \<open>
  \<open>utcnow e k\<close> is the reading of the clock at its \<open>k\<close>-th call. \<open>soup_hrefs\<close> and
  \<open>soup_texts\<close> stand for \<^verbatim>\<open>BeautifulSoup(html, "html.parser")\<close> followed by
  \<^verbatim>\<open>find_all\<close>: the first gives the \<^verbatim>\<open>href\<close> of every anchor that has one, the
  second the text nodes, both in document order, or the exception that the parser raises on
  the page. \<open>pypdf2_page_texts\<close> gives the text of each page, or the exception of the
  reader or of a page.
\<close>

definition DEFAULT_SOURCE_URL :: "env \<Rightarrow> string" where
  "DEFAULT_SOURCE_URL e =
     (case environ_source_url e of
        Some u \<Rightarrow> u
      | None \<Rightarrow> ''https://www.kplc.co.ke/customer-support#powerschedule'')"

section \<open>Links and fallback parsers\<close>

text \<open>\<^verbatim>\<open>base_url.rsplit("/", 1)[0]\<close>\<close>

definition rsplit_slash_head :: "string \<Rightarrow> string" where
  "rsplit_slash_head s =
     (if CHR ''/'' \<in> set s then rev (tl (dropWhile (\<lambda>c. c \<noteq> CHR ''/'') (rev s))) else s)"

definition absolute_pdf_url :: "string \<Rightarrow> string \<Rightarrow> string" where
  "absolute_pdf_url base_url href =
     (if startswith href ''http'' then href
      else if startswith href ''/''
      then (case match_start host_re base_url of Some m \<Rightarrow> group m 1 | None \<Rightarrow> []) @ href
      else rsplit_slash_head base_url @ ''/'' @ href)"

text \<open>
  The import of \<^verbatim>\<open>bs4\<close> is inside a handler; the parse of the page and the loop over
  the anchors are not, so an exception of the parser leaves the function.
\<close>

definition extract_pdf_links_bs4 :: "env \<Rightarrow> string \<Rightarrow> string \<Rightarrow> exn + string list" where
  "extract_pdf_links_bs4 e html base_url =
     (if \<not> bs4_installed e then Inr []
      else case soup_hrefs e html of
        Inl x \<Rightarrow> Inl x
      | Inr hrefs \<Rightarrow>
          (let pdfs = concat (map (\<lambda>a. let href = strip a in
                                         if endswith (map lower href) ''.pdf''
                                         then [absolute_pdf_url base_url href] else [])
                                   hrefs)
           in Inr (uniq_from [] pdfs)))"

definition notice_keywords :: "string list" where
  "notice_keywords = [''Power Maintenance Notice'', ''Planned'', ''Interruption'', ''Outage'']"

definition coarse_notice :: "env \<Rightarrow> string \<Rightarrow> string \<Rightarrow> OutageNotice" where
  "coarse_notice e now_iso t =
     \<lparr>notice_id = hash_id (sha1_hexdigest e) t,
      region = take 120 t,
      area = ''Planned maintenance'',
      startTime = [],
      endTime = [],
      sourceUrl = DEFAULT_SOURCE_URL e,
      createdAt = now_iso\<rparr>"

definition parse_list_section_bs4 ::
  "env \<Rightarrow> datetime \<Rightarrow> string \<Rightarrow> exn + OutageNotice list" where
  "parse_list_section_bs4 e now html =
     (if \<not> bs4_installed e then Inr []
      else case soup_texts e html of
        Inl x \<Rightarrow> Inl x
      | Inr els \<Rightarrow>
          (let texts = filter (\<lambda>t. list_ex (\<lambda>k. contains (map lower t) (map lower k)) notice_keywords
                                    \<and> length t > 12)
                              (map normalize_space els);
               uniq = uniq_from [] texts;
               now_iso = now_iso_of now
           in Inr (map (coarse_notice e now_iso) (take 50 uniq))))"

definition parse_with_regex :: "env \<Rightarrow> datetime \<Rightarrow> string \<Rightarrow> OutageNotice list" where
  "parse_with_regex e now html =
     (let now_iso = now_iso_of now;
          matches = map (\<lambda>m. group m 1) (findall notice_re html)
      in map (\<lambda>m. coarse_notice e now_iso (normalize_space m)) (take 50 matches))"

definition fetch_pdf_text :: "env \<Rightarrow> string \<Rightarrow> exn + string" where
  "fetch_pdf_text e url =
     (case urlopen_read e url of
        Inl x \<Rightarrow> Inl x
      | Inr data \<Rightarrow>
          (let text = (case pdfminer_extract_text e data of Inr t \<Rightarrow> t | Inl _ \<Rightarrow> [])
           in if strip text \<noteq> [] then Inr text
              else case pypdf2_page_texts e data of
                     Inr pages \<Rightarrow> Inr (text @ concat pages)
                   | Inl _ \<Rightarrow> Inr []))"

section \<open>Deduplication and order\<close>

text \<open>
  The dictionary \<^verbatim>\<open>dedup\<close> keeps its keys in the order of their first insertion, and an
  assignment to a key that is there replaces the value in place. \<^verbatim>\<open>sorted\<close> is stable,
  and with \<^verbatim>\<open>reverse=True\<close> it sorts the reversed list and reverses the result.
\<close>

definition dedup_by_id :: "OutageNotice list \<Rightarrow> (string \<times> OutageNotice) list" where
  "dedup_by_id items = foldl (\<lambda>d it. AList.update (notice_id it) it d) [] items"

definition merge_and_sort :: "OutageNotice list \<Rightarrow> OutageNotice list" where
  "merge_and_sort items = rev (sort_key createdAt (rev (map snd (dedup_by_id items))))"

section \<open>JSON output\<close>

text \<open>
  \<^verbatim>\<open>json.dumps(items, ensure_ascii=False, indent=2)\<close> on a list of dictionaries with
  string values: the empty list is \<^verbatim>\<open>[]\<close>; otherwise one item per block, the items
  indented by two blanks and their fields by four.
\<close>

definition hex_char :: "nat \<Rightarrow> char" where
  "hex_char n = (if n mod 16 < 10 then char_of (48 + n mod 16) else char_of (87 + n mod 16))"

definition json_escape :: "char \<Rightarrow> string" where
  "json_escape c =
     (if c = CHR 0x22 then [CHR 0x5C, CHR 0x22]
      else if c = CHR 0x5C then [CHR 0x5C, CHR 0x5C]
      else if c = CHR 0x0A then [CHR 0x5C, CHR ''n'']
      else if c = CHR 0x0D then [CHR 0x5C, CHR ''r'']
      else if c = CHR 0x09 then [CHR 0x5C, CHR ''t'']
      else if c = CHR 0x08 then [CHR 0x5C, CHR ''b'']
      else if c = CHR 0x0C then [CHR 0x5C, CHR ''f'']
      else if (of_char c :: nat) < 32
      then [CHR 0x5C, CHR ''u'', CHR ''0'', CHR ''0'',
            hex_char (of_char c div 16), hex_char (of_char c)]
      else [c])"

definition json_string :: "string \<Rightarrow> string" where
  "json_string s = [CHR 0x22] @ concat (map json_escape s) @ [CHR 0x22]"

fun join :: "string \<Rightarrow> string list \<Rightarrow> string" where
  "join sep [] = []"
| "join sep [x] = x"
| "join sep (x # y # ys) = x @ sep @ join sep (y # ys)"

definition json_field :: "string \<Rightarrow> string \<Rightarrow> string" where
  "json_field k v = json_string k @ '': '' @ json_string v"

definition json_notice :: "OutageNotice \<Rightarrow> string" where
  "json_notice r =
     ''{'' @ [CHR 0x0A] @ ''    '' @
     join ('','' @ [CHR 0x0A] @ ''    '')
       [json_field ''id'' (notice_id r),
        json_field ''region'' (region r),
        json_field ''area'' (area r),
        json_field ''startTime'' (startTime r),
        json_field ''endTime'' (endTime r),
        json_field ''sourceUrl'' (sourceUrl r),
        json_field ''createdAt'' (createdAt r)] @
     [CHR 0x0A] @ ''  '' @ ''}''"

definition json_dumps :: "OutageNotice list \<Rightarrow> string" where
  "json_dumps items =
     (if items = [] then ''[]''
      else ''['' @ [CHR 0x0A] @ ''  '' @
           join ('','' @ [CHR 0x0A] @ ''  '') (map json_notice items) @
           [CHR 0x0A] @ '']'')"

section \<open>The fetch orchestrator\<close>

text \<open>
  The part of \<^verbatim>\<open>main\<close> that chooses the strategy. Its result holds the items found,
  the PDF addresses requested, in order, and the warnings printed. \<open>utcnow e k\<close> is the
  clock as the \<open>k\<close>-th call of a parser reads it. The call of
  \<^verbatim>\<open>extract_pdf_links_bs4\<close> stands outside every handler of \<^verbatim>\<open>main\<close>: its
  exception is the exception of the whole.
\<close>

record collected =
  col_items :: "OutageNotice list"
  col_requested :: "string list"
  col_stderr :: "string list"

fun pdf_loop :: "env \<Rightarrow> nat \<Rightarrow> string list \<Rightarrow> collected" where
  "pdf_loop e k [] = \<lparr>col_items = [], col_requested = [], col_stderr = []\<rparr>"
| "pdf_loop e k (pdf # pdfs) =
     (case fetch_pdf_text e pdf of
        Inl x \<Rightarrow>
          (let r = pdf_loop e k pdfs
           in r\<lparr>col_requested := pdf # col_requested r,
                 col_stderr := (''WARN: failed pdf parse '' @ pdf @ '': '' @ str_exn x)
                               # col_stderr r\<rparr>)
      | Inr txt \<Rightarrow>
          (if txt = []
           then (let r = pdf_loop e k pdfs in r\<lparr>col_requested := pdf # col_requested r\<rparr>)
           else (let r = pdf_loop e (Suc k) pdfs
                 in r\<lparr>col_items :=
                         parse_pdf_for_outages (sha1_hexdigest e) (utcnow e k) txt pdf
                         @ col_items r,
                       col_requested := pdf # col_requested r\<rparr>)))"

definition collect_items :: "env \<Rightarrow> string \<Rightarrow> string \<Rightarrow> exn + collected" where
  "collect_items e html source =
     (case extract_pdf_links_bs4 e html source of
        Inl x \<Rightarrow> Inl x
      | Inr pdf_links \<Rightarrow>
          Inr (if pdf_links \<noteq> [] then pdf_loop e 0 (take 15 pdf_links)
               else
                 (let first = (case parse_list_section_bs4 e (utcnow e 0) html of
                                 Inl x \<Rightarrow> ([], [''WARN: bs4 list parse failed: '' @ str_exn x])
                               | Inr its \<Rightarrow> (its, []))
                  in if fst first = []
                     then \<lparr>col_items = parse_with_regex e (utcnow e 1) html,
                           col_requested = [], col_stderr = snd first\<rparr>
                     else \<lparr>col_items = fst first, col_requested = [],
                           col_stderr = snd first\<rparr>)))"

function str_nat :: "nat \<Rightarrow> string" where
  "str_nat n = (if n < 10 then [digit_char n] else str_nat (n div 10) @ [digit_char n])"
  by pat_completeness auto
termination
  by (relation "measure id") auto

datatype outcome = Returned int | SystemExit int | Raised exn

record fetch_run =
  run_outcome :: outcome
  run_payload :: "string option"
  run_requested :: "string list"
  run_written :: "(string \<times> string) list"
  run_stdout :: "string list"
  run_stderr :: "string list"

text \<open>
  \<^verbatim>\<open>main(argv)\<close>. A run records how \<^verbatim>\<open>main\<close> ended (it returned, or
  \<^verbatim>\<open>argparse\<close> left through \<^verbatim>\<open>SystemExit\<close>, or an exception left it), the payload
  it built, the addresses it requested, the files it wrote (path and content) and the lines
  it printed.
\<close>

definition main :: "env \<Rightarrow> string list \<Rightarrow> fetch_run" where
  "main e argv =
     (case parse_args e argv of
        Inl status \<Rightarrow>
          \<lparr>run_outcome = SystemExit status, run_payload = None, run_requested = [],
           run_written = [], run_stdout = [], run_stderr = []\<rparr>
      | Inr args \<Rightarrow>
          (let got = (case http_get e (arg_source args) of
                        Inl x \<Rightarrow> ([], [''WARN: failed to fetch source: '' @ str_exn x])
                      | Inr h \<Rightarrow> (h, []));
               html = fst got
           in case collect_items e html (arg_source args) of
                Inl x \<Rightarrow>
                  \<lparr>run_outcome = Raised x, run_payload = None,
                   run_requested = [arg_source args], run_written = [], run_stdout = [],
                   run_stderr = snd got\<rparr>
              | Inr c \<Rightarrow>
                  (let items = merge_and_sort (col_items c);
                       payload = json_dumps items;
                       out = (case write_text e (arg_output args) payload of
                                Inl x \<Rightarrow>
                                  ([], [], [''ERROR: failed writing output: '' @ str_exn x])
                              | Inr _ \<Rightarrow>
                                  ([(arg_output args, payload)],
                                   [''Wrote '' @ str_nat (length items) @ '' outages -> ''
                                    @ arg_output args], []));
                       mir = (case arg_mirror args of
                                None \<Rightarrow> ([], [], [])
                              | Some m \<Rightarrow>
                                  if m = [] then ([], [], [])
                                  else (case write_text e m payload of
                                          Inl x \<Rightarrow>
                                            ([], [],
                                             [''WARN: failed to mirror output: '' @ str_exn x])
                                        | Inr _ \<Rightarrow>
                                            ([(m, payload)], [''Mirrored -> '' @ m], [])))
                   in \<lparr>run_outcome = Returned 0,
                        run_payload = Some payload,
                        run_requested = arg_source args # col_requested c,
                        run_written = fst out @ fst mir,
                        run_stdout = fst (snd out) @ fst (snd mir),
                        run_stderr = snd got @ col_stderr c @ snd (snd out)
                                     @ snd (snd mir)\<rparr>)))"

text \<open>
  \<^verbatim>\<open>sys.exit(main(sys.argv[1:]))\<close>: the status of the process. The interpreter ends
  with status 1 on an exception that nothing catches.
\<close>

fun exit_status :: "outcome \<Rightarrow> int" where
  "exit_status (Returned n) = n"
| "exit_status (SystemExit n) = n"
| "exit_status (Raised x) = 1"

section \<open>Command lines\<close>

text \<open>
  The \<^verbatim>\<open>add_argument\<close> declarations of the three scripts, and \<^verbatim>\<open>parse_args\<close> on
  the command lines made of words (tokens that do not start with a dash), declared option
  names written in full and followed by their value, and long options that are no prefix of
  a declared one. On these \<^verbatim>\<open>argparse\<close> either returns the namespace or reports an
  error and leaves with status 2. Abbreviated names, \<^verbatim>\<open>--name=value\<close>, \<^verbatim>\<open>--\<close>,
  the help options and values of an \<^verbatim>\<open>int\<close> option that are not plain digits are
  outside this fragment: on them \<open>parse_cli\<close> gives \<open>None\<close>.
\<close>

datatype cli_value = VNone | VStr string | VInt int

record arg_decl =
  decl_name :: string
  decl_required :: bool
  decl_default :: cli_value
  decl_int :: bool

definition is_word :: "string \<Rightarrow> bool" where
  "is_word t = (t = [] \<or> hd t \<noteq> CHR ''-'')"

definition flag_names :: "arg_decl list \<Rightarrow> string list" where
  "flag_names decls = filter (\<lambda>n. \<not> is_word n) (map decl_name decls)"

definition is_unknown_long :: "arg_decl list \<Rightarrow> string \<Rightarrow> bool" where
  "is_unknown_long decls t =
     (startswith t ''--'' \<and> length t > 2 \<and> CHR ''='' \<notin> set t \<and> CHR '' '' \<notin> set t \<and>
      \<not> list_ex (\<lambda>n. startswith n t) (''--help'' # flag_names decls))"

fun int_of_digits :: "string \<Rightarrow> int" where
  "int_of_digits s = foldl (\<lambda>n c. 10 * n + (int (of_char c) - 48)) 0 s"

definition convert_value :: "arg_decl \<Rightarrow> string \<Rightarrow> cli_value option" where
  "convert_value d v =
     (if decl_int d
      then (if v \<noteq> [] \<and> list_all is_digit v then Some (VInt (int_of_digits v)) else None)
      else Some (VStr v))"

text \<open>
  The scan of the tokens: the words met, the options set (latest first), and whether an
  unknown option was met. \<open>None\<close>: outside the fragment; \<open>Some (Inl 2)\<close>: an option
  without its value.
\<close>

fun scan_argv ::
  "arg_decl list \<Rightarrow> string list \<Rightarrow>
   (int + (string list \<times> (string \<times> cli_value) list \<times> bool)) option" where
  "scan_argv decls [] = Some (Inr ([], [], False))"
| "scan_argv decls (t # ts) =
     (if is_word t
      then (case scan_argv decls ts of
              Some (Inr (wds, opts, unk)) \<Rightarrow> Some (Inr (t # wds, opts, unk))
            | r \<Rightarrow> r)
      else if t \<in> set (flag_names decls)
      then (case ts of
              [] \<Rightarrow> Some (Inl 2)
            | v # ts' \<Rightarrow>
                if is_word v
                then (case find (\<lambda>d. decl_name d = t) decls of
                        None \<Rightarrow> None
                      | Some d \<Rightarrow>
                          (case convert_value d v of
                             None \<Rightarrow> None
                           | Some x \<Rightarrow>
                               (case scan_argv decls ts' of
                                  Some (Inr (wds, opts, unk)) \<Rightarrow>
                                    Some (Inr (wds, opts @ [(t, x)], unk))
                                | r \<Rightarrow> r)))
                else if v \<in> set (flag_names decls) \<or> is_unknown_long decls v
                then Some (Inl 2)
                else None)
      else if is_unknown_long decls t
      then (case scan_argv decls ts of
              Some (Inr (wds, opts, unk)) \<Rightarrow> Some (Inr (wds, opts, True))
            | r \<Rightarrow> r)
      else None)"

definition dest :: "string \<Rightarrow> string" where
  "dest n = dropWhile (\<lambda>c. c = CHR ''-'') n"

text \<open>
  The namespace: the positionals take the words in order, an option its last value or its
  default.
\<close>

fun namespace ::
  "arg_decl list \<Rightarrow> string list \<Rightarrow> (string \<times> cli_value) list \<Rightarrow> (string \<times> cli_value) list" where
  "namespace [] wds opts = []"
| "namespace (d # ds) wds opts =
     (if is_word (decl_name d)
      then (dest (decl_name d), VStr (hd wds)) # namespace ds (tl wds) opts
      else (dest (decl_name d),
            (case map_of opts (decl_name d) of Some x \<Rightarrow> x | None \<Rightarrow> decl_default d))
           # namespace ds wds opts)"

definition parse_cli ::
  "arg_decl list \<Rightarrow> string list \<Rightarrow> (int + (string \<times> cli_value) list) option" where
  "parse_cli decls argv =
     (case scan_argv decls argv of
        None \<Rightarrow> None
      | Some (Inl status) \<Rightarrow> Some (Inl status)
      | Some (Inr (wds, opts, unk)) \<Rightarrow>
          if unk
             \<or> length wds \<noteq> length (filter (\<lambda>d. is_word (decl_name d)) decls)
             \<or> list_ex (\<lambda>d. \<not> is_word (decl_name d) \<and> decl_required d
                              \<and> map_of opts (decl_name d) = None) decls
          then Some (Inl 2)
          else Some (Inr (namespace decls wds opts)))"

text \<open>The fetcher: \<^verbatim>\<open>output\<close>, \<^verbatim>\<open>--mirror\<close>, \<^verbatim>\<open>--source\<close>.\<close>

definition fetcher_cli :: "string \<Rightarrow> arg_decl list" where
  "fetcher_cli default_source =
     [\<lparr>decl_name = ''output'', decl_required = True, decl_default = VNone, decl_int = False\<rparr>,
      \<lparr>decl_name = ''--mirror'', decl_required = False, decl_default = VNone, decl_int = False\<rparr>,
      \<lparr>decl_name = ''--source'', decl_required = False, decl_default = VStr default_source,
        decl_int = False\<rparr>]"

text \<open>The trainer \<^verbatim>\<open>services/prediction/train_from_parquet.py\<close>.\<close>

definition trainer_cli :: "arg_decl list" where
  "trainer_cli =
     [\<lparr>decl_name = ''--input'', decl_required = True, decl_default = VNone, decl_int = False\<rparr>,
      \<lparr>decl_name = ''--output'', decl_required = True, decl_default = VNone, decl_int = False\<rparr>]"

text \<open>The trainer \<^verbatim>\<open>src/services/prediction/train_from_parquet.py\<close>.\<close>

definition src_trainer_cli :: "arg_decl list" where
  "src_trainer_cli =
     [\<lparr>decl_name = ''--input'', decl_required = True, decl_default = VNone, decl_int = False\<rparr>,
      \<lparr>decl_name = ''--output'', decl_required = False, decl_default = VStr ''./models'',
        decl_int = False\<rparr>,
      \<lparr>decl_name = ''--sequence_length'', decl_required = False, decl_default = VInt 24,
        decl_int = True\<rparr>]"

section \<open>The trainer\<close>

text \<open>
  \<^verbatim>\<open>main()\<close> of \<^verbatim>\<open>services/prediction/train_from_parquet.py\<close>. The three steps of
  the pipeline are calls into pandas, scikit-learn and TensorFlow; they are parameters, each
  returning its result or raising. None of them has a handler of its own in the source. A
  run records the status of the process, the steps entered and the lines printed.
\<close>

record train_args =
  train_input :: string
  train_output :: string

record ('d, 'm) trainer_env =
  trainer_parse_args :: "string list \<Rightarrow> int + train_args"
  load_and_preprocess_data :: "string \<Rightarrow> exn + 'd"
  train_model :: "'d \<Rightarrow> exn + 'm"
  save_model_and_artifacts :: "'m \<Rightarrow> string \<Rightarrow> exn + unit"

datatype step = Load | Train | Save

record train_run =
  train_exit :: int
  train_steps :: "step list"
  train_stdout :: "string list"

definition trainer_main :: "('d, 'm) trainer_env \<Rightarrow> string list \<Rightarrow> train_run" where
  "trainer_main e argv =
     (case trainer_parse_args e argv of
        Inl status \<Rightarrow> \<lparr>train_exit = status, train_steps = [], train_stdout = []\<rparr>
      | Inr args \<Rightarrow>
          (case load_and_preprocess_data e (train_input args) of
             Inl x \<Rightarrow>
               \<lparr>train_exit = 1, train_steps = [Load],
                train_stdout = [''Training failed: '' @ str_exn x]\<rparr>
           | Inr d \<Rightarrow>
               (case train_model e d of
                  Inl x \<Rightarrow>
                    \<lparr>train_exit = 1, train_steps = [Load, Train],
                     train_stdout = [''Training failed: '' @ str_exn x]\<rparr>
                | Inr m \<Rightarrow>
                    (case save_model_and_artifacts e m (train_output args) of
                       Inl x \<Rightarrow>
                         \<lparr>train_exit = 1, train_steps = [Load, Train, Save],
                          train_stdout = [''Training failed: '' @ str_exn x]\<rparr>
                     | Inr _ \<Rightarrow>
                         \<lparr>train_exit = 0, train_steps = [Load, Train, Save],
                          train_stdout = [''Training completed successfully!'']\<rparr>))))"

text \<open>The exception the pipeline raises on the parsed arguments, if it raises one.\<close>

definition pipeline_exception :: "('d, 'm) trainer_env \<Rightarrow> train_args \<Rightarrow> exn option" where
  "pipeline_exception e args =
     (case load_and_preprocess_data e (train_input args) of
        Inl x \<Rightarrow> Some x
      | Inr d \<Rightarrow>
          (case train_model e d of
             Inl x \<Rightarrow> Some x
           | Inr m \<Rightarrow>
               (case save_model_and_artifacts e m (train_output args) of
                  Inl x \<Rightarrow> Some x
                | Inr _ \<Rightarrow> None)))"

section \<open>The scraper under src\<close>

text \<open>
  \<^verbatim>\<open>src/services/kplc/scraper/fetch_kplc_planned_outages.py\<close>: its patterns (case
  sensitive), \<^verbatim>\<open>parse_datetime_range\<close> and \<^verbatim>\<open>fetch\<close>. \<^verbatim>\<open>datetime.strptime\<close> is a
  parameter that gives \<open>None\<close> where Python raises \<^verbatim>\<open>ValueError\<close>. Its
  \<^verbatim>\<open>normalize\<close> has the body of \<^verbatim>\<open>normalize_space\<close> of the other scraper and is
  modelled by the same function.
\<close>

definition ampm :: rx where
  "ampm = Alt (lit_cs ''AM'') (Alt (lit_cs ''PM'') (Alt (lit_cs ''am'') (lit_cs ''pm'')))"

text \<open>\<^verbatim>\<open>(\d{1,2}[./-]\d{1,2}[./-]\d{2,4})\<close>\<close>

definition src_date_re :: rx where
  "src_date_re =
     Grp 1 (Seq digit (Seq (Opt digit) (Seq (one_of ''./-'')
           (Seq digit (Seq (Opt digit) (Seq (one_of ''./-'')
           (Seq digit (Seq digit (Seq (Opt digit) (Opt digit))))))))))"

text \<open>
  \<^verbatim>\<open>(\d{1,2}:\d{2}\s*(AM|PM|am|pm)?)[\s\-toTO]+(\d{1,2}:\d{2}\s*(AM|PM|am|pm)?)\<close>
\<close>

definition src_time_re :: rx where
  "src_time_re =
     Seq (Grp 1 (Seq digit (Seq (Opt digit) (Seq (lit_cs '':'') (Seq digit (Seq digit
            (Seq (Star ws) (Opt (Grp 2 ampm)))))))))
     (Seq (Plus (Chr (\<lambda>c. is_space c \<or> c \<in> set ''-toTO'')))
          (Grp 3 (Seq digit (Seq (Opt digit) (Seq (lit_cs '':'') (Seq digit (Seq digit
            (Seq (Star ws) (Opt (Grp 4 ampm))))))))))"

text \<open>\<^verbatim>\<open>Region[:\-]\s*([A-Za-z\s]+)\<close> and \<^verbatim>\<open>Areas?[:\-]\s*([A-Za-z0-9,\s\/\-]+)\<close>\<close>

definition src_region_re :: rx where
  "src_region_re =
     Seq (lit_cs ''Region'') (Seq (one_of '':-'') (Seq (Star ws)
       (Grp 1 (Plus (Chr (\<lambda>c. is_alpha c \<or> is_space c))))))"

definition src_area_re :: rx where
  "src_area_re =
     Seq (lit_cs ''Area'') (Seq (Opt (lit_cs ''s'')) (Seq (one_of '':-'') (Seq (Star ws)
       (Grp 1 (Plus (Chr (\<lambda>c. is_alpha c \<or> is_digit c \<or> is_space c \<or> c \<in> set '',/-'')))))))"

definition parse_datetime_range ::
  "(string \<Rightarrow> string \<Rightarrow> datetime option) \<Rightarrow> string \<Rightarrow> string option \<times> string option" where
  "parse_datetime_range strptime text =
     (case search src_date_re text of
        None \<Rightarrow> (None, None)
      | Some date_match \<Rightarrow>
     (case search src_time_re text of
        None \<Rightarrow> (None, None)
      | Some time_range \<Rightarrow>
          (let date_str = map (\<lambda>c. if c = CHR ''.'' \<or> c = CHR ''-'' then CHR ''/'' else c)
                              (group date_match 1);
               start_t = group time_range 1;
               end_t = group time_range 3;
               start_dt = (case strptime (date_str @ '' '' @ start_t) ''%d/%m/%Y %I:%M %p'' of
                             Some d \<Rightarrow> Some d
                           | None \<Rightarrow> strptime (date_str @ '' '' @ start_t) ''%d/%m/%Y %H:%M'');
               end_dt = (case strptime (date_str @ '' '' @ end_t) ''%d/%m/%Y %I:%M %p'' of
                           Some d \<Rightarrow> Some d
                         | None \<Rightarrow> strptime (date_str @ '' '' @ end_t) ''%d/%m/%Y %H:%M'')
           in (map_option isoformat start_dt, map_option isoformat end_dt))))"

text \<open>
  \<^verbatim>\<open>str.upper()\<close> of one character. The sharp s becomes two letters; the capitals of
  the micro sign and of y with diaeresis lie beyond the modelled code points and the two are
  left as they are, which a test against an ASCII phrase cannot tell apart.
\<close>

definition upper :: "char \<Rightarrow> string" where
  "upper c =
     (let n = (of_char c :: nat) in
      if n = 223 then ''SS''
      else if (97 \<le> n \<and> n \<le> 122) \<or> (224 \<le> n \<and> n \<le> 254 \<and> n \<noteq> 247)
      then [char_of (n - 32)] else [c])"

text \<open>\<^verbatim>\<open>s.split(sep)\<close> for a separator of one character.\<close>

fun split_from :: "char \<Rightarrow> string \<Rightarrow> string \<Rightarrow> string list" where
  "split_from sep cur [] = [rev cur]"
| "split_from sep cur (c # cs) =
     (if c = sep then rev cur # split_from sep [] cs else split_from sep (c # cur) cs)"

definition SOURCE_URL :: string where
  "SOURCE_URL = ''https://kplc.co.ke/customer-support#powerschedule''"

record src_env =
  requests_get :: "exn + string"
  soup_blocks :: "string \<Rightarrow> exn + string list"
  src_strptime :: "string \<Rightarrow> string \<Rightarrow> datetime option"
  src_utcnow :: "nat \<Rightarrow> datetime"

text \<open>
  The body of the loop of \<^verbatim>\<open>fetch\<close> over the \<^verbatim>\<open>article\<close> and \<^verbatim>\<open>div\<close> elements,
  on the text of the \<open>k\<close>-th of them: the record it appends, if it appends one.
\<close>

definition fetch_item :: "src_env \<Rightarrow> nat \<Rightarrow> string \<Rightarrow> OutageNotice option" where
  "fetch_item e k block_text =
     (let title = normalize_space block_text
      in if title = [] then None
         else if contains title ''Power Maintenance Notice''
                 \<or> contains (concat (map upper title)) ''SPECIAL POWER SUPPLY INTERRUPTION''
         then
           (let times = parse_datetime_range (src_strptime e) title;
                region0 = (case search src_region_re title of
                             Some m \<Rightarrow> normalize_space (group m 1) | None \<Rightarrow> []);
                area0 = (case search src_area_re title of
                           Some m \<Rightarrow> normalize_space (group m 1) | None \<Rightarrow> []);
                parts = filter (\<lambda>p. p \<noteq> []) (map strip (split_from CHR ''-'' [] title));
                region1 = (if region0 = [] \<and> length parts \<ge> 2 then parts ! 1 else region0);
                area1 = (if area0 = [] then ''Planned maintenance'' else area0)
            in Some \<lparr>notice_id = take 120 (normalize_space title),
                     region = region1,
                     area = area1,
                     startTime = (case fst times of Some t \<Rightarrow> t | None \<Rightarrow> []),
                     endTime = (case snd times of Some t \<Rightarrow> t | None \<Rightarrow> []),
                     sourceUrl = SOURCE_URL,
                     createdAt = isoformat (src_utcnow e k) @ ''Z''\<rparr>)
         else None)"

fun fetch_items :: "src_env \<Rightarrow> nat \<Rightarrow> string list \<Rightarrow> OutageNotice list" where
  "fetch_items e k [] = []"
| "fetch_items e k (b # bs) =
     (case fetch_item e k b of
        None \<Rightarrow> fetch_items e (Suc k) bs
      | Some it \<Rightarrow> it # fetch_items e (Suc k) bs)"

fun dedupe_first :: "string list \<Rightarrow> OutageNotice list \<Rightarrow> OutageNotice list" where
  "dedupe_first seen [] = []"
| "dedupe_first seen (it # its) =
     (if notice_id it \<in> set seen then dedupe_first seen its
      else it # dedupe_first (notice_id it # seen) its)"

text \<open>
  \<^verbatim>\<open>fetch\<close> has no handler: an exception of the request or of the parser of the page
  (\<open>soup_blocks\<close>, the texts of the \<^verbatim>\<open>article\<close> and \<^verbatim>\<open>div\<close> elements) leaves it.
\<close>

definition fetch :: "src_env \<Rightarrow> exn + OutageNotice list" where
  "fetch e =
     (case requests_get e of
        Inl x \<Rightarrow> Inl x
      | Inr html \<Rightarrow>
          (case soup_blocks e html of
             Inl x \<Rightarrow> Inl x
           | Inr blocks \<Rightarrow> Inr (dedupe_first [] (fetch_items e 0 blocks))))"

section \<open>ISO 8601\<close>

text \<open>
  The shape of an ISO 8601 calendar date, alone or followed by \<^verbatim>\<open>T\<close> and a time of day
  (hours and minutes, then optionally seconds, a decimal fraction and a zone).
\<close>

definition iso_date :: "string \<Rightarrow> bool" where
  "iso_date s =
     (length s = 10 \<and> list_all is_digit (take 4 s) \<and> s ! 4 = CHR ''-'' \<and>
      list_all is_digit (take 2 (drop 5 s)) \<and> s ! 7 = CHR ''-'' \<and>
      list_all is_digit (drop 8 s))"

definition iso_zone :: "string \<Rightarrow> bool" where
  "iso_zone z =
     (z = [] \<or> z = ''Z'' \<or>
      (length z = 6 \<and> (z ! 0 = CHR ''+'' \<or> z ! 0 = CHR ''-'') \<and>
       list_all is_digit (take 2 (drop 1 z)) \<and> z ! 3 = CHR '':'' \<and>
       list_all is_digit (drop 4 z)))"

definition iso_fraction :: "string \<Rightarrow> bool" where
  "iso_fraction q =
     (iso_zone q \<or>
      (q \<noteq> [] \<and> hd q = CHR ''.'' \<and> takeWhile is_digit (tl q) \<noteq> [] \<and>
       iso_zone (dropWhile is_digit (tl q))))"

definition iso_time :: "string \<Rightarrow> bool" where
  "iso_time t =
     (length t \<ge> 5 \<and> list_all is_digit (take 2 t) \<and> t ! 2 = CHR '':'' \<and>
      list_all is_digit (take 2 (drop 3 t)) \<and>
      (iso_zone (drop 5 t) \<or>
       (length t \<ge> 8 \<and> t ! 5 = CHR '':'' \<and> list_all is_digit (take 2 (drop 6 t)) \<and>
        iso_fraction (drop 8 t))))"

definition iso8601 :: "string \<Rightarrow> bool" where
  "iso8601 s =
     (iso_date (take 10 s) \<and>
      (drop 10 s = [] \<or> (s ! 10 = CHR ''T'' \<and> iso_time (drop 11 s))))"

section \<open>Predicates of the statements\<close>

text \<open>A record with one of the four scanned fields not empty.\<close>

definition has_field :: "OutageNotice \<Rightarrow> bool" where
  "has_field r = (region r \<noteq> [] \<or> area r \<noteq> [] \<or> startTime r \<noteq> [] \<or> endTime r \<noteq> [])"

text \<open>
  A time field as the structured scan leaves it: empty, or the stripped text that the time
  pattern captured on one of the lines.
\<close>

definition raw_time :: "string list \<Rightarrow> string \<Rightarrow> bool" where
  "raw_time lines t =
     (t = [] \<or>
      list_ex (\<lambda>ln. case search time_re ln of
                       Some m \<Rightarrow> t = strip (group m 1)
                     | None \<Rightarrow> False) lines)"

text \<open>The invariant of the scan for the time field.\<close>

definition raw_state :: "string list \<Rightarrow> scan_state \<Rightarrow> bool" where
  "raw_state L st =
     (raw_time L (st_end st) \<and> list_all (\<lambda>r. raw_time L (endTime r)) (outages st))"

section \<open>Sample inputs\<close>

text \<open>A clock reading used where a property is evaluated on a concrete input.\<close>

definition d0 :: datetime where
  "d0 = \<lparr>year = 2024, month = 5, day = 12, hour = 9, minute = 30, second = 0, microsecond = 0\<rparr>"

text \<open>
  \<^verbatim>\<open>parse_args\<close> of the fetcher and of the trainer through \<open>parse_cli\<close>. The samples
  below are only run on command lines of the fragment; outside it the status 2 stands in.
\<close>

definition str_value :: "cli_value option \<Rightarrow> string" where
  "str_value v = (case v of Some (VStr t) \<Rightarrow> t | _ \<Rightarrow> [])"

definition argparse_fetcher :: "string \<Rightarrow> string list \<Rightarrow> int + fetch_args" where
  "argparse_fetcher default_source argv =
     (case parse_cli (fetcher_cli default_source) argv of
        Some (Inr ns) \<Rightarrow>
          Inr \<lparr>arg_output = str_value (map_of ns ''output''),
               arg_mirror = (case map_of ns ''mirror'' of Some (VStr t) \<Rightarrow> Some t | _ \<Rightarrow> None),
               arg_source = str_value (map_of ns ''source'')\<rparr>
      | Some (Inl status) \<Rightarrow> Inl status
      | None \<Rightarrow> Inl 2)"

definition argparse_trainer :: "string list \<Rightarrow> int + train_args" where
  "argparse_trainer argv =
     (case parse_cli trainer_cli argv of
        Some (Inr ns) \<Rightarrow>
          Inr \<lparr>train_input = str_value (map_of ns ''input''),
               train_output = str_value (map_of ns ''output'')\<rparr>
      | Some (Inl status) \<Rightarrow> Inl status
      | None \<Rightarrow> Inl 2)"

text \<open>
  A machine without network and without the optional libraries, where every write
  succeeds; the digest is a stand-in.
\<close>

definition offline_env :: env where
  "offline_env =
     \<lparr>environ_source_url = None,
      sha1_hexdigest = (\<lambda>t. t),
      utcnow = (\<lambda>k. d0),
      parse_args = argparse_fetcher ''https://www.kplc.co.ke/customer-support#powerschedule'',
      http_get = (\<lambda>url. Inl (Exception ''unreachable'')),
      bs4_installed = False,
      soup_hrefs = (\<lambda>html. Inr []),
      soup_texts = (\<lambda>html. Inr []),
      urlopen_read = (\<lambda>url. Inl (Exception ''unreachable'')),
      pdfminer_extract_text = (\<lambda>data. Inl (Exception ''No module named pdfminer'')),
      pypdf2_page_texts = (\<lambda>data. Inl (Exception ''No module named PyPDF2'')),
      write_text = (\<lambda>path content. Inr ())\<rparr>"


text \<open>
  A page with a PDF link and a marked section with an unknown keyword. \<^verbatim>\<open>html.parser\<close>
  raises on it (\<^verbatim>\<open>unknown status keyword 'x ' in marked section\<close>, shortened below),
  and \<^verbatim>\<open>BeautifulSoup\<close> passes the failure on; every other page has no anchor and no
  text here.
\<close>

definition rejected_page :: string where
  "rejected_page = ''<a href=/a.pdf>notice</a><![x y]>''"

definition rejected_page_env :: env where
  "rejected_page_env =
     offline_env\<lparr>http_get := (\<lambda>url. Inr rejected_page),
                 bs4_installed := True,
                 soup_hrefs := (\<lambda>html. if html = rejected_page
                                       then Inl (Exception ''unknown status keyword'')
                                       else Inr []),
                 soup_texts := (\<lambda>html. if html = rejected_page
                                       then Inl (Exception ''unknown status keyword'')
                                       else Inr [])\<rparr>"

text \<open>A page without links and with one text node that bears a keyword.\<close>

definition text_env :: env where
  "text_env =
     offline_env\<lparr>bs4_installed := True,
                 soup_texts := (\<lambda>html. Inr [''Planned outage in Karen''])\<rparr>"

text \<open>A trainer whose three steps succeed, and one whose data cannot be loaded.\<close>

definition ok_trainer :: "(unit, unit) trainer_env" where
  "ok_trainer =
     \<lparr>trainer_parse_args = argparse_trainer,
      load_and_preprocess_data = (\<lambda>path. Inr ()),
      train_model = (\<lambda>d. Inr ()),
      save_model_and_artifacts = (\<lambda>m dir. Inr ())\<rparr>"

definition no_data_trainer :: "(unit, unit) trainer_env" where
  "no_data_trainer =
     ok_trainer\<lparr>load_and_preprocess_data := (\<lambda>path. Inl (Exception ''No such file''))\<rparr>"

text \<open>Three notices, the first and the last with the same id.\<close>

definition n1 :: OutageNotice where
  "n1 = \<lparr>notice_id = ''a'', region = ''R1'', area = [], startTime = [], endTime = [],
         sourceUrl = ''u'', createdAt = ''2024-05-12T09:30:00Z''\<rparr>"

definition n2 :: OutageNotice where
  "n2 = \<lparr>notice_id = ''b'', region = ''R2'', area = [], startTime = [], endTime = [],
         sourceUrl = ''u'', createdAt = ''2024-05-12T09:30:01Z''\<rparr>"

definition n3 :: OutageNotice where
  "n3 = \<lparr>notice_id = ''a'', region = ''R3'', area = [], startTime = [], endTime = [],
         sourceUrl = ''u'', createdAt = ''2024-05-12T09:30:02Z''\<rparr>"

text \<open>The scraper under src on a page with one notice; \<^verbatim>\<open>strptime\<close> reads the 24 hour form.\<close>

definition sample_src_env :: src_env where
  "sample_src_env =
     \<lparr>requests_get = Inr ''<div>Power Maintenance Notice 1.2.2024 9:00 - 17:00</div>'',
      soup_blocks = (\<lambda>html. Inr [''Power Maintenance Notice 1.2.2024 9:00 - 17:00'']),
      src_strptime = (\<lambda>t fmt. if fmt = ''%d/%m/%Y %H:%M'' then Some d0 else None),
      src_utcnow = (\<lambda>k. d0)\<rparr>"

section \<open>Properties of the patterns\<close>

text \<open>A match binds the groups it had and those that its pattern always captures.\<close>

lemma rx_match_binds:
  "st' \<in> set (rx_match r st) \<Longrightarrow>
   fst ` set (snd (snd st)) \<union> binds r \<subseteq> fst ` set (snd (snd st'))"
proof (induction r st arbitrary: st' rule: rx_match.induct)
  case (1 P i s g)
  then show ?case by (auto split: list.splits if_splits)
next
  case (2 i s g)
  then show ?case by (auto split: if_splits)
next
  case (3 st)
  then show ?case by simp
next
  case (4 a b st)
  from "4.prems" obtain mid where m: "mid \<in> set (rx_match a st)" and s: "st' \<in> set (rx_match b mid)"
    by auto
  from "4.IH"(1) [OF m] "4.IH"(2) [OF m s] show ?case by (simp only: binds.simps) blast
next
  case (5 a b st)
  from "5.prems" consider "st' \<in> set (rx_match a st)" | "st' \<in> set (rx_match b st)"
    by auto
  then show ?case
  proof cases
    case 1
    from "5.IH"(1) [OF 1] show ?thesis by (simp only: binds.simps) blast
  next
    case 2
    from "5.IH"(2) [OF 2] show ?thesis by (simp only: binds.simps) blast
  qed
next
  case (6 a i s g)
  from "6.prems" consider "st' = (i, s, g)"
    | mid where "mid \<in> set (rx_match a (i, s, g))" "length (fst (snd mid)) < length s"
        "st' \<in> set (rx_match (Star a) mid)"
    by (auto split: if_splits)
  then show ?case
  proof cases
    case 1
    then show ?thesis by simp
  next
    case 2
    from "6.IH"(1) [OF 2(1)] "6.IH"(2) [OF 2(1) 2(2) 2(3)] show ?thesis
      by (simp only: binds.simps snd_conv) blast
  qed
next
  case (7 n a i s g)
  from "7.prems" obtain mid where m: "mid \<in> set (rx_match a (i, s, g))"
    and s: "st' = (fst mid, fst (snd mid), (n, take (fst mid - i) s) # snd (snd mid))"
    by auto
  from "7.IH" [OF m] s show ?case by auto
qed

lemma rx_search_from_binds:
  "rx_search_from r i s = Some m \<Longrightarrow> n \<in> binds r \<Longrightarrow> map_of m n \<noteq> None"
proof (induction r i s rule: rx_search_from.induct)
  case (1 r i)
  then obtain st' where "st' \<in> set (rx_match r (i, [], []))" and "m = snd (snd st')"
    by (auto split: list.splits)
  with rx_match_binds [of st' r "(i, [], [])"] "1.prems"(2) show ?case
    by (auto simp: map_of_eq_None_iff)
next
  case (2 r i c cs)
  show ?case
  proof (cases "rx_match r (i, c # cs, [])")
    case Nil
    with 2 show ?thesis by simp
  next
    case (Cons st' rest)
    with "2.prems" have "st' \<in> set (rx_match r (i, c # cs, []))" and "m = snd (snd st')"
      by auto
    with rx_match_binds [of st' r "(i, c # cs, [])"] "2.prems"(2) show ?thesis
      by (auto simp: map_of_eq_None_iff)
  qed
qed

lemma search_binds: "search r ln = Some m \<Longrightarrow> n \<in> binds r \<Longrightarrow> map_of m n \<noteq> None"
  unfolding search_def by (rule rx_search_from_binds)

lemma groups_take_part:
  "search region_re ln = Some m \<Longrightarrow> map_of m 2 \<noteq> None"
  "search area_re ln = Some m \<Longrightarrow> map_of m 1 \<noteq> None"
  "search date_re ln = Some m \<Longrightarrow> map_of m 1 \<noteq> None"
  "search time_re ln = Some m \<Longrightarrow> map_of m 1 \<noteq> None"
  "search src_date_re ln = Some m \<Longrightarrow> map_of m 1 \<noteq> None"
  "search src_time_re ln = Some m \<Longrightarrow> map_of m 1 \<noteq> None"
  "search src_time_re ln = Some m \<Longrightarrow> map_of m 3 \<noteq> None"
  "search src_region_re ln = Some m \<Longrightarrow> map_of m 1 \<noteq> None"
  "search src_area_re ln = Some m \<Longrightarrow> map_of m 1 \<noteq> None"
  by (erule search_binds,
      simp add: region_re_def area_re_def date_re_def time_re_def src_date_re_def
        src_time_re_def src_region_re_def src_area_re_def)+

lemma match_start_binds:
  "match_start r t = Some m \<Longrightarrow> n \<in> binds r \<Longrightarrow> map_of m n \<noteq> None"
proof -
  assume a: "match_start r t = Some m" and n: "n \<in> binds r"
  from a obtain st' where "st' \<in> set (rx_match r (0, t, []))" and "m = snd (snd st')"
    by (auto simp: match_start_def split: list.splits)
  with rx_match_binds [of st' r "(0, t, [])"] n show ?thesis
    by (auto simp: map_of_eq_None_iff)
qed

lemma rx_findall_from_binds:
  "m \<in> set (rx_findall_from r i s) \<Longrightarrow> n \<in> binds r \<Longrightarrow> map_of m n \<noteq> None"
proof (induction r i s rule: rx_findall_from.induct)
  case (1 r i s)
  show ?case
  proof (cases "rx_match r (i, s, [])")
    case Nil
    with 1 show ?thesis by (cases s) (auto simp: rx_findall_from.simps [of r i s])
  next
    case (Cons st' rest)
    then have hd: "st' \<in> set (rx_match r (i, s, []))" by simp
    from "1.prems"(1) Cons consider "m = snd (snd st')"
      | "length (fst (snd st')) < length s" "m \<in> set (rx_findall_from r (fst st') (fst (snd st')))"
      | c cs where "\<not> length (fst (snd st')) < length s" "s = c # cs"
          "m \<in> set (rx_findall_from r (Suc i) cs)"
      by (cases s) (auto simp: rx_findall_from.simps [of r i s] split: if_splits)
    then show ?thesis
    proof cases
      case 1
      with rx_match_binds [OF hd] \<open>n \<in> binds r\<close> show ?thesis
        by (auto simp: map_of_eq_None_iff)
    next
      case 2
      with "1.IH"(2) [OF Cons 2(1)] \<open>n \<in> binds r\<close> show ?thesis by simp
    next
      case 3
      with "1.IH"(3) [OF Cons] \<open>n \<in> binds r\<close> show ?thesis by simp
    qed
  qed
qed

lemma more_groups_take_part:
  "match_start host_re t = Some m \<Longrightarrow> map_of m 1 \<noteq> None"
  "m \<in> set (findall notice_re t) \<Longrightarrow> map_of m 1 \<noteq> None"
  unfolding findall_def
  by (erule match_start_binds rx_findall_from_binds, simp add: host_re_def notice_re_def)+

section \<open>Properties of the record extractor\<close>

lemma flush_has_field:
  "list_all has_field (outages st) \<Longrightarrow> list_all has_field (outages (flush H n u st))"
  by (auto simp: flush_def has_field_def)

lemma scan_line_outages:
  "outages (scan_line H n u ln st) = outages st \<or>
   outages (scan_line H n u ln st) = outages (flush H n u st)"
  by (simp add: scan_line_def split: option.splits)

lemma scan_line_has_field:
  "list_all has_field (outages st) \<Longrightarrow> list_all has_field (outages (scan_line H n u ln st))"
  using scan_line_outages [of H n u ln st] flush_has_field [of st H n u] by auto

lemma scan_lines_has_field:
  "list_all has_field (outages st) \<Longrightarrow> list_all has_field (outages (scan_lines H n u lns st))"
  by (induction lns arbitrary: st) (auto intro: scan_line_has_field)

lemma structured_scan_has_field: "list_all has_field (structured_scan H n u lns)"
  unfolding structured_scan_def
  by (rule flush_has_field, rule scan_lines_has_field) (simp add: init_state_def)

text \<open>
  C2. A flush with the four fields of the record in progress all empty changes nothing;
  a flush with one of them not empty appends exactly one record, which carries the four
  fields. So every record of the structured scan has one of the four fields not empty.
\<close>

theorem flush_rule:
  "(st_region st = [] \<and> st_area st = [] \<and> st_start st = [] \<and> st_end st = []
      \<longrightarrow> flush H n u st = st) \<and>
   (\<not> (st_region st = [] \<and> st_area st = [] \<and> st_start st = [] \<and> st_end st = [])
      \<longrightarrow> (\<exists>r. outages (flush H n u st) = outages st @ [r] \<and>
               region r = st_region st \<and> area r = st_area st \<and>
               startTime r = st_start st \<and> endTime r = st_end st)) \<and>
   (\<forall>r \<in> set (structured_scan H n u lns).
      region r \<noteq> [] \<or> area r \<noteq> [] \<or> startTime r \<noteq> [] \<or> endTime r \<noteq> [])"
proof (intro conjI)
  show "st_region st = [] \<and> st_area st = [] \<and> st_start st = [] \<and> st_end st = []
      \<longrightarrow> flush H n u st = st"
    by (simp add: flush_def)
  show "\<not> (st_region st = [] \<and> st_area st = [] \<and> st_start st = [] \<and> st_end st = [])
      \<longrightarrow> (\<exists>r. outages (flush H n u st) = outages st @ [r] \<and>
               region r = st_region st \<and> area r = st_area st \<and>
               startTime r = st_start st \<and> endTime r = st_end st)"
    by (auto simp: flush_def)
  show "\<forall>r \<in> set (structured_scan H n u lns).
      region r \<noteq> [] \<or> area r \<noteq> [] \<or> startTime r \<noteq> [] \<or> endTime r \<noteq> []"
    using structured_scan_has_field [of H n u lns]
    by (auto simp: list_all_iff has_field_def)
qed

theorem flush_rule_witness:
  "flush (\<lambda>s. s) ''T'' ''u'' init_state = init_state \<and>
   (\<exists>r. outages (flush (\<lambda>s. s) ''T'' ''u'' (init_state\<lparr>st_area := ''X''\<rparr>)) = [r] \<and>
        region r = [] \<and> area r = ''X'' \<and> startTime r = [] \<and> endTime r = []) \<and>
   structured_scan (\<lambda>s. s) ''T'' ''u'' [''Area: X''] =
     [\<lparr>notice_id = ''u||X||'', region = [], area = ''X'', startTime = [], endTime = [],
       sourceUrl = ''u'', createdAt = ''T''\<rparr>] \<and>
   area (hd (structured_scan (\<lambda>s. s) ''T'' ''u'' [''Area: X''])) \<noteq> []"
proof -
  have r2: "search region_re ''Area: X'' = None" by code_simp
  have a2: "search area_re ''Area: X'' = Some [(1, ''X'')]" by code_simp
  have g2: "strip (group [(1, ''X'')] 1) = ''X''" by code_simp
  have eq: "structured_scan (\<lambda>s. s) ''T'' ''u'' [''Area: X''] =
     [\<lparr>notice_id = ''u||X||'', region = [], area = ''X'', startTime = [], endTime = [],
       sourceUrl = ''u'', createdAt = ''T''\<rparr>]"
    using g2
    by (simp add: structured_scan_def scan_line_def r2 a2 flush_def init_state_def hash_id_def)
  from flush_rule [of init_state "\<lambda>s. s" "''T''" "''u''" "[''Area: X'']"]
       flush_rule [of "init_state\<lparr>st_area := ''X''\<rparr>" "\<lambda>s. s" "''T''" "''u''" "[''Area: X'']"]
       eq
  show ?thesis by (simp add: init_state_def)
qed

lemma splitlines_from_Nil: "splitlines_from cur s = [] \<longleftrightarrow> cur = [] \<and> s = []"
  by (induction cur s rule: splitlines_from.induct) auto

lemma splitlines_Nil: "splitlines s = [] \<longleftrightarrow> s = []"
  by (simp add: splitlines_def splitlines_from_Nil)





text \<open>
  C3. On empty text the extractor returns no record. On text that is not empty and whose
  structured scan yields no record, it returns exactly one record: its region is the first
  normalized line cut to 120 characters, its area the placeholder, its times empty.
\<close>

theorem fallback_policy:
  "parse_pdf_for_outages H now [] u = [] \<and>
   (text \<noteq> [] \<and>
    structured_scan H (now_iso_of now) u (map normalize_space (splitlines text)) = [] \<longrightarrow>
      parse_pdf_for_outages H now text u =
        [\<lparr>notice_id = hash_id H u,
          region = take 120 (normalize_space (hd (splitlines text))),
          area = ''Planned maintenance'', startTime = [], endTime = [],
          sourceUrl = u, createdAt = now_iso_of now\<rparr>])"
proof (intro conjI impI)
  show "parse_pdf_for_outages H now [] u = []"
    by (simp add: parse_pdf_for_outages_def splitlines_def structured_scan_def
          init_state_def flush_def)
next
  assume a: "text \<noteq> [] \<and>
    structured_scan H (now_iso_of now) u (map normalize_space (splitlines text)) = []"
  then have ne: "splitlines text \<noteq> []" by (simp add: splitlines_Nil)
  then have "hd (map normalize_space (splitlines text)) = normalize_space (hd (splitlines text))"
    by (simp add: hd_map)
  with a ne show "parse_pdf_for_outages H now text u =
        [\<lparr>notice_id = hash_id H u,
          region = take 120 (normalize_space (hd (splitlines text))),
          area = ''Planned maintenance'', startTime = [], endTime = [],
          sourceUrl = u, createdAt = now_iso_of now\<rparr>]"
    by (simp add: parse_pdf_for_outages_def Let_def)
qed

theorem fallback_policy_witness:
  "''hello'' \<noteq> [] \<and>
   structured_scan (\<lambda>s. s) (now_iso_of d0) ''u'' (map normalize_space (splitlines ''hello'')) = [] \<and>
   parse_pdf_for_outages (\<lambda>s. s) d0 ''hello'' ''u'' =
     [\<lparr>notice_id = ''u'', region = ''hello'', area = ''Planned maintenance'',
       startTime = [], endTime = [], sourceUrl = ''u'',
       createdAt = ''2024-05-12T09:30:00Z''\<rparr>]"
proof -
  have l: "map normalize_space (splitlines ''hello'') = [''hello'']" by code_simp
  have r5: "search region_re ''hello'' = None" by code_simp
  have a5: "search area_re ''hello'' = None" by code_simp
  have d5: "search date_re ''hello'' = None" by code_simp
  have t5: "search time_re ''hello'' = None" by code_simp
  have s: "structured_scan (\<lambda>s. s) (now_iso_of d0) ''u'' (map normalize_space (splitlines ''hello'')) = []"
    by (simp add: l structured_scan_def scan_line_def r5 a5 d5 t5 flush_def init_state_def)
  have h: "take 120 (normalize_space (hd (splitlines ''hello''))) = ''hello''" by code_simp
  have i: "hash_id (\<lambda>s. s) ''u'' = ''u''" by code_simp
  have n: "now_iso_of d0 = ''2024-05-12T09:30:00Z''" by code_simp
  from fallback_policy [of "\<lambda>s. s" d0 "''u''" "''hello''"] s h i n
  show ?thesis by simp
qed

section \<open>Properties of the fallback parsers\<close>

text \<open>
  C10. Each of the two HTML fallback parsers returns at most 50 records, whatever the page
  holds.
\<close>

theorem html_fallback_cap:
  "(\<forall>its. parse_list_section_bs4 e now html = Inr its \<longrightarrow> length its \<le> 50) \<and>
   length (parse_with_regex e now html) \<le> 50"
  by (auto simp: parse_list_section_bs4_def parse_with_regex_def Let_def split: sum.splits if_splits)

theorem html_fallback_cap_witness:
  "parse_list_section_bs4 text_env d0 ''<p>Planned outage in Karen</p>'' =
     Inr [coarse_notice text_env ''2024-05-12T09:30:00Z'' ''Planned outage in Karen''] \<and>
   length [coarse_notice text_env ''2024-05-12T09:30:00Z'' ''Planned outage in Karen''] \<le> 50 \<and>
   length (parse_with_regex offline_env d0 ''Power Maintenance Notice X'') \<le> 50"
proof -
  have p: "parse_list_section_bs4 text_env d0 ''<p>Planned outage in Karen</p>'' =
     Inr [coarse_notice text_env ''2024-05-12T09:30:00Z'' ''Planned outage in Karen'']"
    by code_simp
  from html_fallback_cap [of text_env d0 "''<p>Planned outage in Karen</p>''"]
       html_fallback_cap [of offline_env d0 "''Power Maintenance Notice X''"] p
  show ?thesis by blast
qed

section \<open>Properties of the deduplicator\<close>

lemma dedup_map_of:
  "map_of (foldl (\<lambda>d it. AList.update (notice_id it) it d) d items) k =
     (case filter (\<lambda>x. notice_id x = k) items of
        [] \<Rightarrow> map_of d k
      | y # ys \<Rightarrow> Some (last (y # ys)))"
proof (induction items arbitrary: d)
  case Nil
  show ?case by simp
next
  case (Cons it items)
  show ?case
    by (simp add: Cons.IH update_conv' split: list.splits)
qed

lemma dedup_distinct:
  "distinct (map fst d) \<Longrightarrow>
   distinct (map fst (foldl (\<lambda>d it. AList.update (notice_id it) it d) d items))"
  by (induction items arbitrary: d) (simp_all add: distinct_update)

lemma dedup_keys:
  "fst ` set (foldl (\<lambda>d it. AList.update (notice_id it) it d) d items) =
   fst ` set d \<union> notice_id ` set items"
  by (induction items arbitrary: d) (auto simp: dom_update image_Un)

lemma dedup_by_id_lookup:
  assumes "(k, r) \<in> set (dedup_by_id items)"
  shows "notice_id r = k \<and> r = last (filter (\<lambda>x. notice_id x = k) items)"
proof -
  have dist: "distinct (map fst (dedup_by_id items))"
    unfolding dedup_by_id_def by (rule dedup_distinct) simp
  with assms have "map_of (dedup_by_id items) k = Some r" by simp
  then have c: "(case filter (\<lambda>x. notice_id x = k) items of
        [] \<Rightarrow> map_of [] k | y # ys \<Rightarrow> Some (last (y # ys))) = Some r"
    by (simp only: dedup_by_id_def dedup_map_of)
  then have ne: "filter (\<lambda>x. notice_id x = k) items \<noteq> []" by (auto split: list.splits)
  from c have r: "r = last (filter (\<lambda>x. notice_id x = k) items)" by (auto split: list.splits)
  from ne have "last (filter (\<lambda>x. notice_id x = k) items) \<in> set (filter (\<lambda>x. notice_id x = k) items)"
    by (rule last_in_set)
  then have "notice_id (last (filter (\<lambda>x. notice_id x = k) items)) = k" by simp
  with r show ?thesis by blast
qed

lemma dedup_values_ids:
  "map notice_id (map snd (dedup_by_id items)) = map fst (dedup_by_id items)"
proof -
  have "notice_id (snd p) = fst p" if "p \<in> set (dedup_by_id items)" for p
  proof -
    from that have "(fst p, snd p) \<in> set (dedup_by_id items)" by simp
    from dedup_by_id_lookup [OF this] show ?thesis by blast
  qed
  then show ?thesis by simp
qed

text \<open>
  C4. In the result of \<^verbatim>\<open>merge_and_sort\<close> no two records have the same id, the ids
  are those of the input, every record is the last of the input with its id, and the
  records are in descending order of \<^verbatim>\<open>createdAt\<close>, compared as strings.
\<close>

theorem merge_and_sort_spec:
  "distinct (map notice_id (merge_and_sort items)) \<and>
   set (map notice_id (merge_and_sort items)) = set (map notice_id items) \<and>
   (\<forall>r \<in> set (merge_and_sort items).
      r = last (filter (\<lambda>x. notice_id x = notice_id r) items)) \<and>
   sorted_wrt (\<lambda>a b. createdAt b \<le> createdAt a) (merge_and_sort items)"
proof (intro conjI ballI)
  let ?vals = "map snd (dedup_by_id items)"
  have dist: "distinct (map fst (dedup_by_id items))"
    unfolding dedup_by_id_def by (rule dedup_distinct) simp
  have set_eq: "set (merge_and_sort items) = set ?vals"
    by (simp add: merge_and_sort_def)
  have ids: "map notice_id ?vals = map fst (dedup_by_id items)"
    by (rule dedup_values_ids)
  have dv: "distinct (map notice_id ?vals)" unfolding ids by (rule dist)
  have dvals: "distinct ?vals" using dv distinct_map [of notice_id ?vals] by blast
  have inj: "inj_on notice_id (set ?vals)" using dv distinct_map [of notice_id ?vals] by blast
  have dms: "distinct (merge_and_sort items)"
    unfolding merge_and_sort_def using dvals by (simp only: distinct_rev distinct_sort)
  from dms inj set_eq show "distinct (map notice_id (merge_and_sort items))"
    using distinct_map [of notice_id "merge_and_sort items"] by simp
  have "fst ` set (dedup_by_id items) = notice_id ` set items"
    using dedup_keys [of "[]" items] by (simp add: dedup_by_id_def)
  then have "set (map notice_id ?vals) = notice_id ` set items"
    unfolding ids by simp
  then have "notice_id ` set ?vals = notice_id ` set items" by (simp only: set_map)
  then show "set (map notice_id (merge_and_sort items)) = set (map notice_id items)"
    by (simp only: set_map set_eq)
  show "r = last (filter (\<lambda>x. notice_id x = notice_id r) items)"
    if "r \<in> set (merge_and_sort items)" for r
  proof -
    from that set_eq obtain k where "(k, r) \<in> set (dedup_by_id items)" by auto
    from dedup_by_id_lookup [OF this]
    have "notice_id r = k" and "r = last (filter (\<lambda>x. notice_id x = k) items)" by blast+
    then show ?thesis by (simp only:)
  qed
  have "sorted (map createdAt (sort_key createdAt (rev ?vals)))" by (rule sorted_sort_key)
  then have "sorted_wrt (\<lambda>a b. createdAt a \<le> createdAt b) (sort_key createdAt (rev ?vals))"
    by (simp only: sorted_map)
  then show "sorted_wrt (\<lambda>a b. createdAt b \<le> createdAt a) (merge_and_sort items)"
    by (simp only: merge_and_sort_def sorted_wrt_rev)
qed

theorem merge_and_sort_spec_witness:
  "merge_and_sort [n1, n2, n3] = [n3, n2] \<and>
   n3 \<in> set (merge_and_sort [n1, n2, n3]) \<and>
   n3 = last (filter (\<lambda>x. notice_id x = notice_id n3) [n1, n2, n3]) \<and>
   distinct (map notice_id (merge_and_sort [n1, n2, n3]))"
proof -
  have e: "merge_and_sort [n1, n2, n3] = [n3, n2]" by code_simp
  then have m: "n3 \<in> set (merge_and_sort [n1, n2, n3])" by simp
  from merge_and_sort_spec [of "[n1, n2, n3]"] e m show ?thesis by blast
qed

section \<open>Properties of the fetch orchestrator\<close>








lemma fetch_pdf_text_soup_texts [simp]:
  "fetch_pdf_text (e\<lparr>soup_texts := f\<rparr>) pdf = fetch_pdf_text e pdf"
  by (simp add: fetch_pdf_text_def Let_def split: sum.splits)


lemma extract_pdf_links_soup_texts [simp]:
  "extract_pdf_links_bs4 (e\<lparr>soup_texts := f\<rparr>) html src = extract_pdf_links_bs4 e html src"
  by (simp add: extract_pdf_links_bs4_def)





section \<open>Properties of the runs of the fetcher\<close>

lemma json_dumps_Nil: "json_dumps [] = ''[]''"
  by (simp add: json_dumps_def)

lemma merge_and_sort_Nil: "merge_and_sort [] = []"
  by (simp add: merge_and_sort_def dedup_by_id_def)

lemma findall_notice_Nil: "findall notice_re [] = []"
  by code_simp

lemma parse_with_regex_Nil: "parse_with_regex e now [] = []"
  by (simp add: parse_with_regex_def findall_notice_Nil)

lemma collect_items_no_bs4:
  "\<not> bs4_installed e \<Longrightarrow>
   collect_items e [] src = Inr \<lparr>col_items = [], col_requested = [], col_stderr = []\<rparr>"
  by (simp add: collect_items_def extract_pdf_links_bs4_def parse_list_section_bs4_def
        parse_with_regex_Nil)

text \<open>
  \<^verbatim>\<open>parse_args\<close> runs before every handler. A command line that it rejects ends the
  process with the status of \<^verbatim>\<open>argparse\<close> before anything is fetched or written, as
  for every program that declares a required argument; the empty command line is one.
\<close>

lemma main_rejected_command_line:
  "parse_args e argv = Inl status \<Longrightarrow>
   run_outcome (main e argv) = SystemExit status \<and> run_written (main e argv) = []"
  by (simp add: main_def)

lemma main_without_output_path:
  "parse_cli (fetcher_cli ''https://www.kplc.co.ke/customer-support#powerschedule'') [] = Some (Inl 2) \<and>
   run_outcome (main offline_env []) = SystemExit 2 \<and>
   exit_status (run_outcome (main offline_env [])) = 2 \<and>
   run_payload (main offline_env []) = None \<and>
   run_written (main offline_env []) = []"
  by code_simp

text \<open>
  On a command line that \<^verbatim>\<open>parse_args\<close> accepts, \<^verbatim>\<open>main\<close> leaves through an
  exception exactly when the extraction of the PDF links raises, and it returns 0 otherwise,
  whatever the fetch, the PDF requests, the fallback parsers and the writes do.
\<close>

lemma main_accepted:
  assumes "parse_args e argv = Inr a"
  shows "(run_outcome (main e argv) = Raised x) =
           (extract_pdf_links_bs4 e (case http_get e (arg_source a) of Inl _ \<Rightarrow> [] | Inr h \<Rightarrow> h)
              (arg_source a) = Inl x)"
    and "(run_outcome (main e argv) = Returned 0) =
           (\<exists>links. extract_pdf_links_bs4 e
                       (case http_get e (arg_source a) of Inl _ \<Rightarrow> [] | Inr h \<Rightarrow> h)
                       (arg_source a) = Inr links)"
    and "run_outcome (main e argv) = Returned 0 \<or> (\<exists>x. run_outcome (main e argv) = Raised x)"
  using assms
  by (auto simp: main_def Let_def collect_items_def split: sum.splits)

text \<open>
  When the fetch of the source fails and no item is parsed from the empty page (as is always
  so without \<^verbatim>\<open>bs4\<close>), the payload is \<^verbatim>\<open>[]\<close>, and it is what a successful write puts
  at the output path.
\<close>

lemma main_unreachable:
  assumes p: "parse_args e argv = Inr a"
    and h: "http_get e (arg_source a) = Inl x"
    and c: "collect_items e [] (arg_source a) = Inr c"
    and n: "col_items c = []"
  shows "run_outcome (main e argv) = Returned 0"
    and "run_payload (main e argv) = Some ''[]''"
    and "write_text e (arg_output a) ''[]'' = Inr () \<Longrightarrow>
         (arg_output a, ''[]'') \<in> set (run_written (main e argv))"
  using p h c n by (simp_all add: main_def Let_def merge_and_sort_Nil json_dumps_Nil)

lemma main_unreachable_no_bs4:
  assumes "parse_args e argv = Inr a" and "http_get e (arg_source a) = Inl x"
    and "\<not> bs4_installed e"
  shows "run_outcome (main e argv) = Returned 0 \<and> run_payload (main e argv) = Some ''[]''"
  using assms
  by (simp add: main_def Let_def collect_items_no_bs4 merge_and_sort_Nil json_dumps_Nil)

lemma main_offline:
  "run_outcome (main offline_env [''out.json'']) = Returned 0 \<and>
   run_payload (main offline_env [''out.json'']) = Some ''[]'' \<and>
   run_written (main offline_env [''out.json'']) = [(''out.json'', ''[]'')]"
  by code_simp

text \<open>
  C5 fails on a page that the parser of \<^verbatim>\<open>bs4\<close> rejects. The command line is accepted
  and the page is fetched; \<^verbatim>\<open>BeautifulSoup\<close> raises inside
  \<^verbatim>\<open>extract_pdf_links_bs4\<close>, which \<^verbatim>\<open>main\<close> calls outside every handler, so the
  exception of a parsing step leaves \<^verbatim>\<open>main\<close>: no payload is built, nothing is
  written, and the status of the process is 1 and not 0. The docstring of the script
  promises a JSON file and the status 0 always, and the same parse of the page is inside a
  handler where \<^verbatim>\<open>main\<close> calls \<^verbatim>\<open>parse_list_section_bs4\<close>.
\<close>

theorem main_raises:
  "parse_args rejected_page_env [''out.json''] =
     Inr \<lparr>arg_output = ''out.json'', arg_mirror = None,
          arg_source = ''https://www.kplc.co.ke/customer-support#powerschedule''\<rparr> \<and>
   http_get rejected_page_env ''https://www.kplc.co.ke/customer-support#powerschedule'' =
     Inr rejected_page \<and>
   extract_pdf_links_bs4 rejected_page_env rejected_page
     ''https://www.kplc.co.ke/customer-support#powerschedule'' =
     Inl (Exception ''unknown status keyword'') \<and>
   run_outcome (main rejected_page_env [''out.json'']) =
     Raised (Exception ''unknown status keyword'') \<and>
   exit_status (run_outcome (main rejected_page_env [''out.json''])) = 1 \<and>
   run_payload (main rejected_page_env [''out.json'']) = None \<and>
   run_written (main rejected_page_env [''out.json'']) = []"
  by code_simp

section \<open>Properties of the time fields\<close>

lemma is_digit_digit_char: "is_digit (digit_char n)"
  by (simp add: is_digit_def digit_char_def less_eq_char_def)

lemma iso8601_isoformat: "iso8601 (isoformat d)"
  by (simp add: iso8601_def isoformat_def pad2_def pad4_def pad6_def iso_date_def iso_time_def
        iso_zone_def iso_fraction_def is_digit_digit_char)

lemma parse_datetime_range_shape:
  "\<exists>a b. parse_datetime_range sp text = (map_option isoformat a, map_option isoformat b)"
proof (cases "search src_date_re text")
  case None
  then have "parse_datetime_range sp text = (map_option isoformat None, map_option isoformat None)"
    by (simp add: parse_datetime_range_def)
  then show ?thesis by blast
next
  case (Some dm)
  show ?thesis
  proof (cases "search src_time_re text")
    case None
    with Some have "parse_datetime_range sp text =
        (map_option isoformat None, map_option isoformat None)"
      by (simp add: parse_datetime_range_def)
    then show ?thesis by blast
  next
    case (Some tm)
    with \<open>search src_date_re text = Some dm\<close> show ?thesis
      by (simp add: parse_datetime_range_def Let_def) blast
  qed
qed

lemma parse_datetime_range_iso:
  "(fst (parse_datetime_range sp text) = None \<or>
    (\<exists>d. fst (parse_datetime_range sp text) = Some (isoformat d))) \<and>
   (snd (parse_datetime_range sp text) = None \<or>
    (\<exists>d. snd (parse_datetime_range sp text) = Some (isoformat d)))"
proof -
  obtain a b where "parse_datetime_range sp text = (map_option isoformat a, map_option isoformat b)"
    using parse_datetime_range_shape by blast
  then show ?thesis by (cases a; cases b) auto
qed

lemma fetch_item_iso:
  assumes "fetch_item e k b = Some r"
  shows "(startTime r = [] \<or> iso8601 (startTime r)) \<and> (endTime r = [] \<or> iso8601 (endTime r))"
proof -
  let ?t = "parse_datetime_range (src_strptime e) (normalize_space b)"
  from assms have s: "startTime r = (case fst ?t of Some t \<Rightarrow> t | None \<Rightarrow> [])"
    and en: "endTime r = (case snd ?t of Some t \<Rightarrow> t | None \<Rightarrow> [])"
    by (auto simp: fetch_item_def Let_def split: if_splits)
  from parse_datetime_range_iso [of "src_strptime e" "normalize_space b"] s en
  show ?thesis by (auto simp: iso8601_isoformat)
qed

lemma fetch_items_iso:
  "r \<in> set (fetch_items e k bs) \<Longrightarrow>
   (startTime r = [] \<or> iso8601 (startTime r)) \<and> (endTime r = [] \<or> iso8601 (endTime r))"
proof (induction bs arbitrary: k)
  case Nil
  then show ?case by simp
next
  case (Cons b bs)
  show ?case
  proof (cases "fetch_item e k b")
    case None
    with Cons show ?thesis by simp
  next
    case (Some it)
    with Cons.prems have "r = it \<or> r \<in> set (fetch_items e (Suc k) bs)" by simp
    then show ?thesis using Cons.IH fetch_item_iso [OF Some] by blast
  qed
qed

lemma dedupe_first_subset: "set (dedupe_first seen its) \<subseteq> set its"
  by (induction its arbitrary: seen) auto

lemma raw_time_Nil: "raw_time L []"
  by (simp add: raw_time_def)

lemma raw_time_match:
  "ln \<in> set L \<Longrightarrow> search time_re ln = Some m \<Longrightarrow> raw_time L (strip (group m 1))"
  by (auto simp: raw_time_def list_ex_iff intro!: bexI [of _ ln])

lemma flush_raw: "raw_state L st \<Longrightarrow> raw_state L (flush H n u st)"
  by (auto simp: raw_state_def flush_def raw_time_Nil)

lemma scan_line_raw:
  assumes "raw_state L st" and "ln \<in> set L"
  shows "raw_state L (scan_line H n u ln st)"
proof -
  have f: "raw_state L (flush H n u st)" using assms(1) by (rule flush_raw)
  show ?thesis
    using assms f raw_time_match [OF assms(2)]
    by (auto simp: scan_line_def raw_state_def split: option.splits)
qed

lemma scan_lines_raw:
  "raw_state L st \<Longrightarrow> set lns \<subseteq> set L \<Longrightarrow> raw_state L (scan_lines H n u lns st)"
  by (induction lns arbitrary: st) (auto intro: scan_line_raw)

lemma structured_scan_raw: "list_all (\<lambda>r. raw_time L (endTime r)) (structured_scan H n u L)"
proof -
  have "raw_state L init_state" by (simp add: raw_state_def init_state_def raw_time_Nil)
  then have "raw_state L (scan_lines H n u L init_state)" by (rule scan_lines_raw) simp
  then have "raw_state L (flush H n u (scan_lines H n u L init_state))" by (rule flush_raw)
  then show ?thesis by (simp add: raw_state_def structured_scan_def)
qed

text \<open>
  C7, path by path. The records of the two HTML fallback parsers and the fallback record of
  \<^verbatim>\<open>parse_pdf_for_outages\<close> have empty \<^verbatim>\<open>startTime\<close> and \<^verbatim>\<open>endTime\<close>. In every
  record of \<^verbatim>\<open>parse_pdf_for_outages\<close> the \<^verbatim>\<open>endTime\<close> is empty or the stripped text
  that the time pattern captured on a line, as the source says it stores the raw time
  range. In the records of \<^verbatim>\<open>fetch\<close> of the scraper under src both fields are empty or
  the \<^verbatim>\<open>isoformat()\<close> of a parsed date, which has the shape of ISO 8601.
\<close>

theorem time_fields:
  "(\<forall>r \<in> set (parse_with_regex e now html). startTime r = [] \<and> endTime r = []) \<and>
   (\<forall>its. parse_list_section_bs4 e now html = Inr its \<longrightarrow>
      (\<forall>r \<in> set its. startTime r = [] \<and> endTime r = [])) \<and>
   (structured_scan H (now_iso_of now) u (map normalize_space (splitlines text)) = [] \<longrightarrow>
      (\<forall>r \<in> set (parse_pdf_for_outages H now text u). startTime r = [] \<and> endTime r = [])) \<and>
   (\<forall>r \<in> set (parse_pdf_for_outages H now text u).
      raw_time (map normalize_space (splitlines text)) (endTime r)) \<and>
   (\<forall>its. fetch se = Inr its \<longrightarrow>
      (\<forall>r \<in> set its. (startTime r = [] \<or> iso8601 (startTime r)) \<and>
                      (endTime r = [] \<or> iso8601 (endTime r))))"
proof (intro conjI allI impI ballI)
  fix r assume "r \<in> set (parse_with_regex e now html)"
  then show "startTime r = []" and "endTime r = []"
    by (auto simp: parse_with_regex_def coarse_notice_def Let_def)
next
  fix its r
  assume "parse_list_section_bs4 e now html = Inr its" and "r \<in> set its"
  then show "startTime r = []" and "endTime r = []"
    by (auto simp: parse_list_section_bs4_def coarse_notice_def Let_def
        split: if_splits sum.splits)
next
  fix r
  assume "structured_scan H (now_iso_of now) u (map normalize_space (splitlines text)) = []"
    and "r \<in> set (parse_pdf_for_outages H now text u)"
  then show "startTime r = []" and "endTime r = []"
    by (auto simp: parse_pdf_for_outages_def Let_def split: if_splits)
next
  fix r
  assume r: "r \<in> set (parse_pdf_for_outages H now text u)"
  let ?L = "map normalize_space (splitlines text)"
  from structured_scan_raw [of ?L H "now_iso_of now" u] r
  show "raw_time ?L (endTime r)"
    by (auto simp: parse_pdf_for_outages_def Let_def list_all_iff raw_time_Nil split: if_splits)
next
  fix its r
  assume "fetch se = Inr its" and r: "r \<in> set its"
  then obtain blocks where "its = dedupe_first [] (fetch_items se 0 blocks)"
    by (auto simp: fetch_def split: sum.splits)
  with r dedupe_first_subset have "r \<in> set (fetch_items se 0 blocks)"
    by blast
  from fetch_items_iso [OF this]
  show "startTime r = [] \<or> iso8601 (startTime r)" and "endTime r = [] \<or> iso8601 (endTime r)"
    by blast+
qed

theorem time_fields_witness:
  "parse_with_regex offline_env d0 ''Power Maintenance Notice X'' =
     [coarse_notice offline_env ''2024-05-12T09:30:00Z'' ''Power Maintenance Notice X''] \<and>
   startTime (coarse_notice offline_env ''2024-05-12T09:30:00Z'' ''Power Maintenance Notice X'') = [] \<and>
   endTime (coarse_notice offline_env ''2024-05-12T09:30:00Z'' ''Power Maintenance Notice X'') = [] \<and>
   parse_pdf_for_outages (\<lambda>t. t) d0 (''A REGION'' @ [CHR 0x0A] @ ''Time: 9-5'') ''u'' =
     [\<lparr>notice_id = ''u|A REGION|||9-5'', region = ''A REGION'', area = [], startTime = [],
       endTime = ''9-5'', sourceUrl = ''u'', createdAt = ''2024-05-12T09:30:00Z''\<rparr>] \<and>
   raw_time (map normalize_space (splitlines (''A REGION'' @ [CHR 0x0A] @ ''Time: 9-5''))) ''9-5'' \<and>
   fetch sample_src_env =
     Inr [\<lparr>notice_id = ''Power Maintenance Notice 1.2.2024 9:00 - 17:00'',
           region = ''17:00'', area = ''Planned maintenance'',
           startTime = ''2024-05-12T09:30:00'', endTime = ''2024-05-12T09:30:00'',
           sourceUrl = ''https://kplc.co.ke/customer-support#powerschedule'',
           createdAt = ''2024-05-12T09:30:00Z''\<rparr>] \<and>
   iso8601 ''2024-05-12T09:30:00''"
proof -
  let ?c = "coarse_notice offline_env ''2024-05-12T09:30:00Z'' ''Power Maintenance Notice X''"
  let ?text = "''A REGION'' @ [CHR 0x0A] @ ''Time: 9-5''"
  let ?p = "\<lparr>notice_id = ''u|A REGION|||9-5'', region = ''A REGION'', area = [], startTime = [],
       endTime = ''9-5'', sourceUrl = ''u'', createdAt = ''2024-05-12T09:30:00Z''\<rparr>"
  let ?f = "\<lparr>notice_id = ''Power Maintenance Notice 1.2.2024 9:00 - 17:00'',
           region = ''17:00'', area = ''Planned maintenance'',
           startTime = ''2024-05-12T09:30:00'', endTime = ''2024-05-12T09:30:00'',
           sourceUrl = ''https://kplc.co.ke/customer-support#powerschedule'',
           createdAt = ''2024-05-12T09:30:00Z''\<rparr>"
  have a: "parse_with_regex offline_env d0 ''Power Maintenance Notice X'' = [?c]" by code_simp
  have b: "parse_pdf_for_outages (\<lambda>t. t) d0 ?text ''u'' = [?p]" by code_simp
  have c: "fetch sample_src_env = Inr [?f]" by code_simp
  note t = time_fields [of offline_env d0 "''Power Maintenance Notice X''" "\<lambda>t. t" "''u''" ?text
      sample_src_env]
  have ma: "?c \<in> set (parse_with_regex offline_env d0 ''Power Maintenance Notice X'')"
    by (simp only: a list.set_intros)
  have mb: "?p \<in> set (parse_pdf_for_outages (\<lambda>t. t) d0 ?text ''u'')"
    by (simp only: b list.set_intros)
  have mc: "?f \<in> set [?f]" by simp
  from t ma have r1: "startTime ?c = [] \<and> endTime ?c = []" by blast
  from t mb have "raw_time (map normalize_space (splitlines ?text)) (endTime ?p)" by blast
  then have r2: "raw_time (map normalize_space (splitlines ?text)) ''9-5''" by simp
  from t c mc have "startTime ?f = [] \<or> iso8601 (startTime ?f)" by blast
  then have r3: "iso8601 ''2024-05-12T09:30:00''" by simp
  from a r1 b r2 c r3 show ?thesis by blast
qed

text \<open>
  C7 does not hold for the structured scan. On a notice with a date line and a time line
  it stores the captured texts as they are, and neither is ISO 8601 or empty.
\<close>

theorem time_fields_counterexample:
  "parse_pdf_for_outages (\<lambda>t. t) d0
      (''NAIROBI REGION'' @ [CHR 0x0A] @ ''DATE: Sunday 12.05.2024'' @ [CHR 0x0A] @
       ''TIME: 9.00 A.M. - 5.00 P.M.'') ''u'' =
     [\<lparr>notice_id = ''u|NAIROBI REGION'', region = ''NAIROBI REGION'', area = [],
       startTime = ''Sunday 12.05.2024'', endTime = ''9.00 A.M. - 5.00 P.M.'',
       sourceUrl = ''u'', createdAt = ''2024-05-12T09:30:00Z''\<rparr>] \<and>
   \<not> iso8601 ''9.00 A.M. - 5.00 P.M.'' \<and> ''9.00 A.M. - 5.00 P.M.'' \<noteq> [] \<and>
   \<not> iso8601 ''Sunday 12.05.2024'' \<and> ''Sunday 12.05.2024'' \<noteq> []"
  by code_simp

section \<open>Properties of the trainer\<close>

text \<open>
  C8, with the command line taken into account. When \<^verbatim>\<open>parse_args\<close> accepts the command line, the trainer ends with
  a status other than 0 exactly when a step of the pipeline raises; the status is then 1,
  the message of the exception is printed once, and no later step is entered: a failure of
  the load leaves the steps at the load, a failure of the training at the load and the
  training. Without an exception all three steps run and the status is 0. When
  \<^verbatim>\<open>parse_args\<close> rejects the command line, the process ends with the status of
  \<^verbatim>\<open>argparse\<close> and no step is entered.
\<close>

theorem trainer_exit:
  "(trainer_parse_args e argv = Inr a \<longrightarrow>
      (train_exit (trainer_main e argv) \<noteq> 0 \<longleftrightarrow> pipeline_exception e a \<noteq> None) \<and>
      (pipeline_exception e a = Some x \<longrightarrow>
         train_exit (trainer_main e argv) = 1 \<and>
         train_stdout (trainer_main e argv) = [''Training failed: '' @ str_exn x]) \<and>
      (pipeline_exception e a = None \<longrightarrow>
         train_exit (trainer_main e argv) = 0 \<and>
         train_steps (trainer_main e argv) = [Load, Train, Save]) \<and>
      (load_and_preprocess_data e (train_input a) = Inl x \<longrightarrow>
         train_steps (trainer_main e argv) = [Load]) \<and>
      (load_and_preprocess_data e (train_input a) = Inr d \<and> train_model e d = Inl x \<longrightarrow>
         train_steps (trainer_main e argv) = [Load, Train])) \<and>
   (trainer_parse_args e argv = Inl status \<longrightarrow>
      train_exit (trainer_main e argv) = status \<and> train_steps (trainer_main e argv) = [])"
  by (auto simp: trainer_main_def pipeline_exception_def split: sum.splits)

theorem trainer_exit_witness:
  "trainer_parse_args ok_trainer [''--input'', ''d.parquet'', ''--output'', ''out''] =
     Inr \<lparr>train_input = ''d.parquet'', train_output = ''out''\<rparr> \<and>
   pipeline_exception ok_trainer \<lparr>train_input = ''d.parquet'', train_output = ''out''\<rparr> = None \<and>
   train_exit (trainer_main ok_trainer [''--input'', ''d.parquet'', ''--output'', ''out'']) = 0 \<and>
   pipeline_exception no_data_trainer \<lparr>train_input = ''d.parquet'', train_output = ''out''\<rparr> =
     Some (Exception ''No such file'') \<and>
   train_exit (trainer_main no_data_trainer [''--input'', ''d.parquet'', ''--output'', ''out'']) = 1 \<and>
   train_steps (trainer_main no_data_trainer [''--input'', ''d.parquet'', ''--output'', ''out'']) = [Load]"
proof -
  let ?argv = "[''--input'', ''d.parquet'', ''--output'', ''out'']"
  let ?a = "\<lparr>train_input = ''d.parquet'', train_output = ''out''\<rparr>"
  have p: "trainer_parse_args ok_trainer ?argv = Inr ?a" by code_simp
  have q: "trainer_parse_args no_data_trainer ?argv = Inr ?a" by code_simp
  have n: "pipeline_exception ok_trainer ?a = None" by code_simp
  have x: "pipeline_exception no_data_trainer ?a = Some (Exception ''No such file'')" by code_simp
  have l: "load_and_preprocess_data no_data_trainer (train_input ?a) = Inl (Exception ''No such file'')"
    by code_simp
  from trainer_exit [of ok_trainer ?argv ?a] p n
  have r1: "train_exit (trainer_main ok_trainer ?argv) = 0" by blast
  from trainer_exit [of no_data_trainer ?argv ?a "Exception ''No such file''"] q x l
  have r2: "train_exit (trainer_main no_data_trainer ?argv) = 1 \<and>
     train_steps (trainer_main no_data_trainer ?argv) = [Load]" by blast
  from p n r1 x r2 show ?thesis by blast
qed

text \<open>
  C8 does not hold on every command line. \<^verbatim>\<open>--input\<close> and \<^verbatim>\<open>--output\<close> are
  required: on the empty command line \<^verbatim>\<open>parse_args\<close> ends the process with status 2,
  and no step of the pipeline has been entered, so none has raised.
\<close>

theorem trainer_exit_counterexample:
  "parse_cli trainer_cli [] = Some (Inl 2) \<and>
   train_exit (trainer_main ok_trainer []) = 2 \<and>
   train_steps (trainer_main ok_trainer []) = []"
  by code_simp

lemma digits_word: "n \<noteq> [] \<Longrightarrow> list_all is_digit n \<Longrightarrow> is_word n"
  by (cases n) (auto simp: is_word_def is_digit_def less_eq_char_def)

lemma trainer_flags:
  "flag_names src_trainer_cli = [''--input'', ''--output'', ''--sequence_length'']"
  "flag_names trainer_cli = [''--input'', ''--output'']"
  "\<not> is_word ''--input''" "\<not> is_word ''--output''" "\<not> is_word ''--sequence_length''"
  "is_unknown_long trainer_cli ''--sequence_length''"
  by code_simp+

text \<open>
  C9, for each of the two trainers. The trainer under src accepts an input path, an output directory and a
  sequence length, the last two optional with the defaults \<^verbatim>\<open>./models\<close> and 24, and
  rejects a command line without the input path. The trainer of
  \<^verbatim>\<open>services/prediction\<close> accepts an input path and an output directory, requires both
  (a command line without either one is rejected), and rejects a sequence length.
\<close>

theorem trainer_cli_accepts:
  "is_word i \<and> is_word out \<and> n \<noteq> [] \<and> list_all is_digit n \<longrightarrow>
     parse_cli src_trainer_cli [''--input'', i, ''--output'', out, ''--sequence_length'', n] =
       Some (Inr [(''input'', VStr i), (''output'', VStr out),
                  (''sequence_length'', VInt (int_of_digits n))]) \<and>
     parse_cli src_trainer_cli [''--input'', i] =
       Some (Inr [(''input'', VStr i), (''output'', VStr ''./models''),
                  (''sequence_length'', VInt 24)]) \<and>
     parse_cli src_trainer_cli [''--output'', out] = Some (Inl 2) \<and>
     parse_cli trainer_cli [''--input'', i, ''--output'', out] =
       Some (Inr [(''input'', VStr i), (''output'', VStr out)]) \<and>
     parse_cli trainer_cli [''--input'', i] = Some (Inl 2) \<and>
     parse_cli trainer_cli [''--output'', out] = Some (Inl 2) \<and>
     parse_cli trainer_cli [''--input'', i, ''--output'', out, ''--sequence_length'', n] =
       Some (Inl 2)"
proof
  assume a: "is_word i \<and> is_word out \<and> n \<noteq> [] \<and> list_all is_digit n"
  then have wi: "is_word i" and wo: "is_word out" and wn: "is_word n"
    and dn: "n \<noteq> []" "list_all is_digit n"
    by (simp_all add: digits_word)
  have 1: "parse_cli src_trainer_cli [''--input'', i, ''--output'', out, ''--sequence_length'', n] =
       Some (Inr [(''input'', VStr i), (''output'', VStr out),
                  (''sequence_length'', VInt (int_of_digits n))])"
    using wi wo wn dn
    by (simp add: parse_cli_def trainer_flags trainer_flags [unfolded src_trainer_cli_def]
          convert_value_def dest_def src_trainer_cli_def)
  have 2: "parse_cli src_trainer_cli [''--input'', i] =
       Some (Inr [(''input'', VStr i), (''output'', VStr ''./models''),
                  (''sequence_length'', VInt 24)])"
    using wi
    by (simp add: parse_cli_def trainer_flags trainer_flags [unfolded src_trainer_cli_def]
          convert_value_def dest_def src_trainer_cli_def)
  have 3: "parse_cli src_trainer_cli [''--output'', out] = Some (Inl 2)"
    using wo
    by (simp add: parse_cli_def trainer_flags trainer_flags [unfolded src_trainer_cli_def]
          convert_value_def dest_def src_trainer_cli_def)
  have 4: "parse_cli trainer_cli [''--input'', i, ''--output'', out] =
       Some (Inr [(''input'', VStr i), (''output'', VStr out)])"
    using wi wo
    by (simp add: parse_cli_def trainer_flags trainer_flags [unfolded trainer_cli_def]
          convert_value_def dest_def trainer_cli_def)
  have 5: "parse_cli trainer_cli [''--input'', i] = Some (Inl 2)"
    using wi
    by (simp add: parse_cli_def trainer_flags trainer_flags [unfolded trainer_cli_def]
          convert_value_def dest_def trainer_cli_def)
  have 6: "parse_cli trainer_cli [''--input'', i, ''--output'', out, ''--sequence_length'', n] =
       Some (Inl 2)"
    using wi wo wn
    by (simp add: parse_cli_def trainer_flags trainer_flags [unfolded trainer_cli_def]
          convert_value_def dest_def trainer_cli_def)
  have 7: "parse_cli trainer_cli [''--output'', out] = Some (Inl 2)"
    using wo
    by (simp add: parse_cli_def trainer_flags trainer_flags [unfolded trainer_cli_def]
          convert_value_def dest_def trainer_cli_def)
  from 1 2 3 4 5 6 7 show "parse_cli src_trainer_cli [''--input'', i, ''--output'', out, ''--sequence_length'', n] =
       Some (Inr [(''input'', VStr i), (''output'', VStr out),
                  (''sequence_length'', VInt (int_of_digits n))]) \<and>
     parse_cli src_trainer_cli [''--input'', i] =
       Some (Inr [(''input'', VStr i), (''output'', VStr ''./models''),
                  (''sequence_length'', VInt 24)]) \<and>
     parse_cli src_trainer_cli [''--output'', out] = Some (Inl 2) \<and>
     parse_cli trainer_cli [''--input'', i, ''--output'', out] =
       Some (Inr [(''input'', VStr i), (''output'', VStr out)]) \<and>
     parse_cli trainer_cli [''--input'', i] = Some (Inl 2) \<and>
     parse_cli trainer_cli [''--output'', out] = Some (Inl 2) \<and>
     parse_cli trainer_cli [''--input'', i, ''--output'', out, ''--sequence_length'', n] =
       Some (Inl 2)" by blast
qed

theorem trainer_cli_accepts_witness:
  "is_word ''d.parquet'' \<and> is_word ''out'' \<and> list_all is_digit ''12'' \<and>
   parse_cli src_trainer_cli
     [''--input'', ''d.parquet'', ''--output'', ''out'', ''--sequence_length'', ''12''] =
     Some (Inr [(''input'', VStr ''d.parquet''), (''output'', VStr ''out''),
                (''sequence_length'', VInt 12)]) \<and>
   parse_cli trainer_cli [''--input'', ''d.parquet'', ''--output'', ''out''] =
     Some (Inr [(''input'', VStr ''d.parquet''), (''output'', VStr ''out'')]) \<and>
   parse_cli trainer_cli [''--input'', ''d.parquet''] = Some (Inl 2) \<and>
   parse_cli trainer_cli [''--output'', ''out''] = Some (Inl 2)"
proof -
  have w: "is_word ''d.parquet'' \<and> is_word ''out'' \<and> ''12'' \<noteq> [] \<and> list_all is_digit ''12''"
    by code_simp
  have v: "int_of_digits ''12'' = 12" by code_simp
  from trainer_cli_accepts [of "''d.parquet''" "''out''" "''12''"] w v
  show ?thesis by simp
qed

text \<open>
  C9 does not hold for the trainer of \<^verbatim>\<open>services/prediction\<close>: it declares no
  sequence length, and a command line that gives one ends with status 2.
\<close>

theorem trainer_cli_accepts_counterexample:
  "parse_cli trainer_cli
     [''--input'', ''d.parquet'', ''--output'', ''out'', ''--sequence_length'', ''12''] =
     Some (Inl 2)"
  by code_simp

end
